theory Spec2Isabelle
  imports Main
begin

chapter \<open>mpesa-ke: a shallow embedding of the credential-and-request core\<close>

text \<open>
  The development follows the TypeScript sources: \<^verbatim>\<open>src/utils.ts\<close> (phone numbers,
  timestamps, credentials), \<^verbatim>\<open>src/errors.ts\<close> (the typed errors), \<^verbatim>\<open>src/mpesa.ts\<close>
  (token cache, dispatcher) and \<^verbatim>\<open>src/express.ts\<close> (callback parsing and the webhook
  handler). Every \<^verbatim>\<open>throw\<close> is a value \<open>Inl e\<close> of a sum type, every mutation of
  \<^verbatim>\<open>this\<close> or of the outside world is explicit state passing, and every loop is a
  recursive function with a termination proof.
\<close>

section \<open>JavaScript values used by the sources\<close>

subsection \<open>Strings\<close>

text \<open>
  A JavaScript string is a \<open>string\<close> (a list of characters). The sources only inspect
  ASCII characters (digits, signs, white space), so the difference between UTF-16 code
  units and bytes plays no role: no multi-byte encoding of a non-ASCII character
  contains an ASCII byte.
\<close>

definition is_digit :: "char \<Rightarrow> bool" where
  "is_digit c = (c \<in> set ''0123456789'')"

definition digit_char :: "nat \<Rightarrow> char" where
  "digit_char d = ''0123456789'' ! d"

definition digit_val :: "char \<Rightarrow> nat" where
  "digit_val c = of_char c - 48"

text \<open>\<^verbatim>\<open>s.startsWith(p)\<close> and \<^verbatim>\<open>s.substring(a, b)\<close> for \<open>a \<le> b\<close> (indices beyond the
  end are clamped to the length, as \<open>take\<close> and \<open>drop\<close> do).\<close>

definition startsWith :: "string \<Rightarrow> string \<Rightarrow> bool" where
  "startsWith s p = (take (length p) s = p)"

definition substring :: "string \<Rightarrow> nat \<Rightarrow> nat \<Rightarrow> string" where
  "substring s a b = take (b - a) (drop a s)"

text \<open>\<^verbatim>\<open>s.padStart(n, '0')\<close>.\<close>

definition padStart :: "string \<Rightarrow> nat \<Rightarrow> char \<Rightarrow> string" where
  "padStart s n c = replicate (n - length s) c @ s"

subsection \<open>Numbers\<close>

text \<open>
  A JavaScript number is modelled as a mathematical integer or \<open>NaN\<close>. All numbers the
  modelled code computes (digit counts, HTTP status codes, millisecond clocks, date
  fields) are integers far below \<open>2^53\<close>, where doubles are exact.
\<close>

datatype number = Num int | NaN

fun show_nat :: "nat \<Rightarrow> string" where
  "show_nat n = (if n < 10 then [digit_char n] else show_nat (n div 10) @ [digit_char (n mod 10)])"

declare show_nat.simps [simp del]

definition show_int :: "int \<Rightarrow> string" where
  "show_int i = (if i < 0 then ''-'' @ show_nat (nat (- i)) else show_nat (nat i))"

text \<open>\<^verbatim>\<open>String(x)\<close> and template interpolation of a number.\<close>

fun String_of_number :: "number \<Rightarrow> string" where
  "String_of_number (Num i) = show_int i"
| "String_of_number NaN = ''NaN''"

section \<open>Parsed JSON\<close>

text \<open>
  What \<^verbatim>\<open>response.json()\<close> can resolve to: any JSON value, not only an object. Numbers
  are whole numbers, as elsewhere; an object lists each of its properties once.
\<close>

datatype json =
    JNull
  | JBool bool
  | JNum int
  | JStr string
  | JArr "json list"
  | JObj "(string \<times> json) list"

text \<open>
  \<^verbatim>\<open>data.key\<close> for a value that is not \<^verbatim>\<open>null\<close>: the property of an object, and
  \<^verbatim>\<open>undefined\<close> (\<open>None\<close>) for a missing property and for a boolean, a number, a string or
  an array, whose prototypes have no property of the names read here.
\<close>

fun property :: "json \<Rightarrow> string \<Rightarrow> json option" where
  "property (JObj fields) key = map_of fields key"
| "property v key = None"

text \<open>Truthiness, as \<^verbatim>\<open>||\<close> tests it.\<close>

fun json_truthy :: "json \<Rightarrow> bool" where
  "json_truthy JNull = False"
| "json_truthy (JBool b) = b"
| "json_truthy (JNum n) = (n \<noteq> 0)"
| "json_truthy (JStr s) = (s \<noteq> [])"
| "json_truthy (JArr xs) = True"
| "json_truthy (JObj fields) = True"

text \<open>
  \<^verbatim>\<open>String(v)\<close>, which the \<^verbatim>\<open>Error\<close> constructor applies to its message: an array is
  its elements joined by commas, \<^verbatim>\<open>null\<close> elements left empty.
\<close>

fun join_comma :: "string list \<Rightarrow> string" where
  "join_comma [] = []"
| "join_comma [x] = x"
| "join_comma (x # y # ys) = x @ '','' @ join_comma (y # ys)"

fun String_of_json :: "json \<Rightarrow> string" where
  "String_of_json JNull = ''null''"
| "String_of_json (JBool b) = (if b then ''true'' else ''false'')"
| "String_of_json (JNum n) = show_int n"
| "String_of_json (JStr s) = s"
| "String_of_json (JArr xs) =
     join_comma (map (\<lambda>x. if x = JNull then [] else String_of_json x) xs)"
| "String_of_json (JObj fields) = ''[object Object]''"

text \<open>\<^verbatim>\<open>v || fallback\<close> where the result is used as a message.\<close>

definition json_or :: "json option \<Rightarrow> string \<Rightarrow> string" where
  "json_or v fallback =
     (case v of
        None \<Rightarrow> fallback
      | Some x \<Rightarrow> if json_truthy x then String_of_json x else fallback)"

section \<open>Typed errors (\<^verbatim>\<open>errors.ts\<close>)\<close>

text \<open>
  The \<^verbatim>\<open>response?: unknown\<close> field of \<^verbatim>\<open>MpesaError\<close> holds either nothing, the raw
  body text (authentication) or the parsed body (API calls).
\<close>

datatype payload = NoPayload | Text string | Data json

text \<open>
  \<open>Error name message\<close> is a plain JavaScript error (\<^verbatim>\<open>new Error(message)\<close> has the name
  \<^verbatim>\<open>Error\<close>; a failed \<^verbatim>\<open>fetch\<close> rejects with a \<^verbatim>\<open>TypeError\<close> or an \<^verbatim>\<open>AbortError\<close>).
  The three classes of \<^verbatim>\<open>errors.ts\<close> carry \<^verbatim>\<open>message\<close>, \<^verbatim>\<open>statusCode?\<close>, \<^verbatim>\<open>response?\<close>
  and their own extra field; \<^verbatim>\<open>errorCode\<close> is whatever the body holds under that name.
\<close>

datatype error =
    Error string string
  | MpesaAuthError string "nat option" payload
  | MpesaApiError string "nat option" payload "json option"
  | MpesaValidationError string "string option"

text \<open>Reading a property of \<^verbatim>\<open>null\<close> throws this \<^verbatim>\<open>TypeError\<close>.\<close>

definition null_property_error :: "string \<Rightarrow> error" where
  "null_property_error key =
     Error ''TypeError''
       (''Cannot read properties of null (reading '' @ [CHR 0x27] @ key @ [CHR 0x27] @ '')'')"

fun is_ValidationError :: "error \<Rightarrow> bool" where
  "is_ValidationError (MpesaValidationError m f) = True"
| "is_ValidationError e = False"

section \<open>Utility functions (\<^verbatim>\<open>utils.ts\<close>)\<close>

subsection \<open>formatPhoneNumber\<close>

text \<open>
  \<^verbatim>\<open>
  export function formatPhoneNumber(phone: string): string {
      let cleaned = phone.replace(/\D/g, '');
      if (cleaned.startsWith('0')) {
          cleaned = '254' + cleaned.substring(1);
      } else if (!cleaned.startsWith('254')) {
          cleaned = '254' + cleaned;
      }
      if (cleaned.length !== 12) {
          throw new Error(
              `Invalid phone number "${phone}": expected 12 digits after formatting, got ${cleaned.length} (${cleaned})`
          );
      }
      return cleaned;
  }
  \<close>
\<close>

definition country_code_normalize :: "string \<Rightarrow> string" where
  "country_code_normalize cleaned =
     (if startsWith cleaned ''0'' then ''254'' @ drop 1 cleaned
      else if \<not> startsWith cleaned ''254'' then ''254'' @ cleaned
      else cleaned)"

definition invalid_phone_message :: "string \<Rightarrow> string \<Rightarrow> string" where
  "invalid_phone_message phone cleaned =
     ''Invalid phone number '' @ [CHR 0x22] @ phone @ [CHR 0x22] @
     '': expected 12 digits after formatting, got '' @ show_nat (length cleaned) @
     '' ('' @ cleaned @ '')''"

definition formatPhoneNumber :: "string \<Rightarrow> error + string" where
  "formatPhoneNumber phone =
     (let cleaned = country_code_normalize (filter is_digit phone)
      in if length cleaned \<noteq> 12
         then Inl (Error ''Error'' (invalid_phone_message phone cleaned))
         else Inr cleaned)"

subsection \<open>generatePassword and base64\<close>

text \<open>
  \<^verbatim>\<open>Buffer.from(data).toString('base64')\<close>: the standard alphabet with \<^verbatim>\<open>=\<close> padding,
  three bytes to four characters.
\<close>

definition base64_char :: "nat \<Rightarrow> char" where
  "base64_char i =
     ''ABCDEFGHIJKLMNOPQRSTUVWXYZabcdefghijklmnopqrstuvwxyz0123456789+/'' ! i"

fun base64_bytes :: "nat list \<Rightarrow> string" where
  "base64_bytes [] = []"
| "base64_bytes [a] =
     [base64_char (a div 4), base64_char ((a mod 4) * 16), CHR ''='', CHR ''='']"
| "base64_bytes [a, b] =
     [base64_char (a div 4), base64_char ((a mod 4) * 16 + b div 16),
      base64_char ((b mod 16) * 4), CHR ''='']"
| "base64_bytes (a # b # c # rest) =
     [base64_char (a div 4), base64_char ((a mod 4) * 16 + b div 16),
      base64_char ((b mod 16) * 4 + c div 64), base64_char (c mod 64)] @ base64_bytes rest"

definition base64 :: "string \<Rightarrow> string" where
  "base64 s = base64_bytes (map of_char s)"

text \<open>
  \<^verbatim>\<open>
  export function generatePassword(businessShortCode, passKey, timestamp): string {
      const data = `${businessShortCode}${passKey}${timestamp}`;
      return Buffer.from(data).toString('base64');
  }
  \<close>
\<close>

definition generatePassword :: "string \<Rightarrow> string \<Rightarrow> string \<Rightarrow> string" where
  "generatePassword businessShortCode passKey timestamp =
     base64 (businessShortCode @ passKey @ timestamp)"

subsection \<open>parseInt\<close>

text \<open>
  \<^verbatim>\<open>parseInt(s)\<close> with no radix argument: leading white space is skipped, a sign is
  read, a \<^verbatim>\<open>0x\<close> prefix selects radix 16, the longest prefix of digits of the radix is
  the value and the rest of the string is ignored; no digit at all gives \<open>NaN\<close>. White space is the
  ASCII white space (tab, line feed, vertical tab, form feed, carriage return, space).
\<close>

definition is_space :: "char \<Rightarrow> bool" where
  "is_space c = (c \<in> set [CHR 0x09, CHR 0x0A, CHR 0x0B, CHR 0x0C, CHR 0x0D, CHR '' ''])"

definition is_hex_digit :: "char \<Rightarrow> bool" where
  "is_hex_digit c = (c \<in> set ''0123456789abcdefABCDEF'')"

definition hex_val :: "char \<Rightarrow> nat" where
  "hex_val c =
     (if is_digit c then of_char c - 48
      else if c \<in> set ''abcdef'' then of_char c - 87
      else of_char c - 55)"

definition digits_value :: "nat \<Rightarrow> (char \<Rightarrow> nat) \<Rightarrow> string \<Rightarrow> nat" where
  "digits_value radix val ds = foldl (\<lambda>acc c. acc * radix + val c) 0 ds"

definition parseInt :: "string \<Rightarrow> number" where
  "parseInt s =
     (let s1 = dropWhile is_space s;
          neg = startsWith s1 ''-'';
          s2 = (if startsWith s1 ''-'' \<or> startsWith s1 ''+'' then drop 1 s1 else s1);
          hex = (startsWith s2 ''0x'' \<or> startsWith s2 ''0X'');
          ds = (if hex then takeWhile is_hex_digit (drop 2 s2) else takeWhile is_digit s2);
          v = (if hex then digits_value 16 hex_val ds else digits_value 10 digit_val ds)
      in if ds = [] then NaN
         else if neg then Num (- int v) else Num (int v))"

text \<open>Arithmetic and comparison on numbers: \<open>NaN\<close> propagates, and every comparison
  with \<open>NaN\<close> is false.\<close>

fun number_add :: "number \<Rightarrow> number \<Rightarrow> number" where
  "number_add (Num a) (Num b) = Num (a + b)"
| "number_add x y = NaN"

fun number_sub :: "number \<Rightarrow> number \<Rightarrow> number" where
  "number_sub (Num a) (Num b) = Num (a - b)"
| "number_sub x y = NaN"

fun number_mul :: "number \<Rightarrow> number \<Rightarrow> number" where
  "number_mul (Num a) (Num b) = Num (a * b)"
| "number_mul x y = NaN"

fun number_less :: "number \<Rightarrow> number \<Rightarrow> bool" where
  "number_less (Num a) (Num b) = (a < b)"
| "number_less x y = False"

subsection \<open>Dates\<close>

text \<open>
  A \<^verbatim>\<open>Date\<close> is either invalid or a moment, held as the fields the local-time getters
  report for it: year, month index (0 to 11), day of the month, hours, minutes,
  seconds. The sources build dates with the six-argument constructor, which reads its
  arguments as local time, and read them with the local-time getters only.
  Milliseconds are always 0 here and are left out.
\<close>

datatype Date = Invalid_Date | Local int int int int int int

text \<open>
  The time zone belongs to the host. The constructor turns the local date-time it is
  given into a moment, and the getters turn the moment back into a local date-time. For
  a local date-time that exists in the zone (once, or twice where clocks were put back)
  the getters report that same date-time. A local date-time that the zone skipped,
  because clocks were put forward over it, is no moment's local time: the getters then
  report a later one. A \<open>zone\<close> gives for every local date-time the number of seconds
  between it and the one reported: 0 for a local date-time that exists, the width of
  the gap for a skipped one.
\<close>

type_synonym local_time = "int \<times> int \<times> int \<times> int \<times> int \<times> int"

type_synonym zone = "local_time \<Rightarrow> int"

definition leap_year :: "int \<Rightarrow> bool" where
  "leap_year y = (y mod 4 = 0 \<and> (y mod 400 = 0 \<or> y mod 100 \<noteq> 0))"

definition days_in_month :: "int \<Rightarrow> int \<Rightarrow> int" where
  "days_in_month y m =
     (if m = 1 then (if leap_year y then 29 else 28)
      else if m = 3 \<or> m = 5 \<or> m = 8 \<or> m = 10 then 30
      else 31)"

lemma days_in_month_bounds: "28 \<le> days_in_month y m \<and> days_in_month y m \<le> 31"
  by (simp add: days_in_month_def)

text \<open>
  \<^verbatim>\<open>new Date(y, m, d, ...)\<close> accepts fields out of range and carries them over: day 0 is
  the last day of the month before, day 32 of January is the first of February. With
  the month index already reduced to 0..11, \<open>normalize_day y m off\<close> finds the date that
  lies \<open>off\<close> days after the first day of month \<open>m\<close> of year \<open>y\<close>.
\<close>

function normalize_day :: "int \<Rightarrow> int \<Rightarrow> int \<Rightarrow> int \<times> int \<times> int" where
  "normalize_day y m off =
     (if off < 0 then
        (if m = 0 then normalize_day (y - 1) 11 (off + days_in_month (y - 1) 11)
         else normalize_day y (m - 1) (off + days_in_month y (m - 1)))
      else if off \<ge> days_in_month y m then
        (if m = 11 then normalize_day (y + 1) 0 (off - days_in_month y m)
         else normalize_day y (m + 1) (off - days_in_month y m))
      else (y, m, off + 1))"
  by pat_completeness auto
termination
proof (relation "measure (\<lambda>(y, m, off). if off < 0 then nat (- off) + 31 else nat off)")
  show "wf (measure (\<lambda>(y, m, off). if off < 0 then nat (- off) + 31 else nat off))"
    by simp
next
  fix y m off :: int
  assume "off < 0" "m = 0"
  then show "((y - 1, 11, off + days_in_month (y - 1) 11), y, m, off)
      \<in> measure (\<lambda>(y, m, off). if off < 0 then nat (- off) + 31 else nat off)"
    using days_in_month_bounds [of "y - 1" 11] by auto
next
  fix y m off :: int
  assume "off < 0" "m \<noteq> 0"
  then show "((y, m - 1, off + days_in_month y (m - 1)), y, m, off)
      \<in> measure (\<lambda>(y, m, off). if off < 0 then nat (- off) + 31 else nat off)"
    using days_in_month_bounds [of y "m - 1"] by auto
next
  fix y m off :: int
  assume "\<not> off < 0" "days_in_month y m \<le> off" "m = 11"
  then show "((y + 1, 0, off - days_in_month y m), y, m, off)
      \<in> measure (\<lambda>(y, m, off). if off < 0 then nat (- off) + 31 else nat off)"
    using days_in_month_bounds [of y m] by auto
next
  fix y m off :: int
  assume "\<not> off < 0" "days_in_month y m \<le> off" "m \<noteq> 11"
  then show "((y, m + 1, off - days_in_month y m), y, m, off)
      \<in> measure (\<lambda>(y, m, off). if off < 0 then nat (- off) + 31 else nat off)"
    using days_in_month_bounds [of y m] by auto
qed

declare normalize_day.simps [simp del]

text \<open>
  \<^verbatim>\<open>new Date(year, monthIndex, day, hours, minutes, seconds)\<close>: any \<open>NaN\<close> argument gives
  an invalid date; a year from 0 to 99 means 1900 + year; then the fields are carried
  over (seconds into days, months into years, days into months), and the local
  date-time so found is moved by the host's zone when the zone skipped it. The limit of
  \<open>8.64 * 10^15\<close> ms around 1970 beyond which a date is invalid is not modelled: the
  constructor is only called by \<open>parseSafaricomDate\<close>, with a year of at most four
  characters.
\<close>

definition carry_over :: "int \<Rightarrow> int \<Rightarrow> int \<Rightarrow> int \<Rightarrow> int \<Rightarrow> int \<Rightarrow> local_time" where
  "carry_over y m d h mi s =
     (let time = h * 3600 + mi * 60 + s;
          (y', m', d') = normalize_day (y + m div 12) (m mod 12) (d - 1 + time div 86400);
          sec = time mod 86400
      in (y', m', d', sec div 3600, sec mod 3600 div 60, sec mod 60))"

fun new_Date ::
  "zone \<Rightarrow> number \<Rightarrow> number \<Rightarrow> number \<Rightarrow> number \<Rightarrow> number \<Rightarrow> number \<Rightarrow> Date"
where
  "new_Date z (Num y) (Num m) (Num d) (Num h) (Num mi) (Num s) =
     (let yr = (if 0 \<le> y \<and> y \<le> 99 then 1900 + y else y);
          (y1, m1, d1, h1, mi1, s1) = carry_over yr m d h mi s;
          (y2, m2, d2, h2, mi2, s2) =
            carry_over y1 m1 d1 h1 mi1 (s1 + z (y1, m1, d1, h1, mi1, s1))
      in Local y2 m2 d2 h2 mi2 s2)"
| "new_Date z y m d h mi s = Invalid_Date"

fun getFullYear :: "Date \<Rightarrow> number" where
  "getFullYear (Local y m d h mi s) = Num y"
| "getFullYear Invalid_Date = NaN"

fun getMonth :: "Date \<Rightarrow> number" where
  "getMonth (Local y m d h mi s) = Num m"
| "getMonth Invalid_Date = NaN"

fun getDate :: "Date \<Rightarrow> number" where
  "getDate (Local y m d h mi s) = Num d"
| "getDate Invalid_Date = NaN"

fun getHours :: "Date \<Rightarrow> number" where
  "getHours (Local y m d h mi s) = Num h"
| "getHours Invalid_Date = NaN"

fun getMinutes :: "Date \<Rightarrow> number" where
  "getMinutes (Local y m d h mi s) = Num mi"
| "getMinutes Invalid_Date = NaN"

fun getSeconds :: "Date \<Rightarrow> number" where
  "getSeconds (Local y m d h mi s) = Num s"
| "getSeconds Invalid_Date = NaN"

subsection \<open>generateTimestamp\<close>

text \<open>
  \<^verbatim>\<open>
  export function generateTimestamp(date: Date = new Date()): string {
      const year = date.getFullYear();
      const month = String(date.getMonth() + 1).padStart(2, '0');
      const day = String(date.getDate()).padStart(2, '0');
      const hours = String(date.getHours()).padStart(2, '0');
      const minutes = String(date.getMinutes()).padStart(2, '0');
      const seconds = String(date.getSeconds()).padStart(2, '0');
      return `${year}${month}${day}${hours}${minutes}${seconds}`;
  }
  \<close>
\<close>

definition generateTimestamp :: "Date \<Rightarrow> string" where
  "generateTimestamp date =
     (let year = getFullYear date;
          month = padStart (String_of_number (number_add (getMonth date) (Num 1))) 2 CHR ''0'';
          day = padStart (String_of_number (getDate date)) 2 CHR ''0'';
          hours = padStart (String_of_number (getHours date)) 2 CHR ''0'';
          minutes = padStart (String_of_number (getMinutes date)) 2 CHR ''0'';
          seconds = padStart (String_of_number (getSeconds date)) 2 CHR ''0''
      in String_of_number year @ month @ day @ hours @ minutes @ seconds)"

subsection \<open>parseSafaricomDate\<close>

text \<open>
  A value of type \<^verbatim>\<open>string | number\<close>, as the callback items carry it. Numbers in the
  gateway's payloads are whole numbers.
\<close>

datatype item_value = StringValue string | NumberValue int

fun String_of_value :: "item_value \<Rightarrow> string" where
  "String_of_value (StringValue s) = s"
| "String_of_value (NumberValue n) = show_int n"

text \<open>
  \<^verbatim>\<open>
  export function parseSafaricomDate(dateValue: string | number): Date {
      const s = String(dateValue);
      return new Date(
          parseInt(s.substring(0, 4)),
          parseInt(s.substring(4, 6)) - 1,
          parseInt(s.substring(6, 8)),
          parseInt(s.substring(8, 10)),
          parseInt(s.substring(10, 12)),
          parseInt(s.substring(12, 14))
      );
  }
  \<close>
  The constructor reads the six fields as local time in the host's zone \<open>z\<close>.
\<close>

definition parseSafaricomDate :: "zone \<Rightarrow> item_value \<Rightarrow> Date" where
  "parseSafaricomDate z dateValue =
     (let s = String_of_value dateValue
      in new_Date z
           (parseInt (substring s 0 4))
           (number_sub (parseInt (substring s 4 6)) (Num 1))
           (parseInt (substring s 6 8))
           (parseInt (substring s 8 10))
           (parseInt (substring s 10 12))
           (parseInt (substring s 12 14)))"

text \<open>The number written by the digits of \<open>s\<close> from position \<open>a\<close> up to \<open>b\<close>: the year
  is \<open>timestamp_field s 0 4\<close>, the month \<open>timestamp_field s 4 6\<close>, and so on.\<close>

definition timestamp_field :: "string \<Rightarrow> nat \<Rightarrow> nat \<Rightarrow> nat" where
  "timestamp_field s a b = digits_value 10 digit_val (substring s a b)"

subsection \<open>generateSecurityCredential\<close>

text \<open>
  \<^verbatim>\<open>
  export function generateSecurityCredential(password: string, certificatePath?: string): string {
      const crypto = require('crypto');
      const fs = require('fs');
      let certificate: string;
      if (certificatePath) {
          certificate = fs.readFileSync(certificatePath, 'utf8');
      } else {
          certificate = SANDBOX_CERTIFICATE;
      }
      const encrypted = crypto.publicEncrypt(
          { key: certificate, padding: crypto.constants.RSA_PKCS1_PADDING },
          Buffer.from(password)
      );
      return encrypted.toString('base64');
  }
  \<close>
  The file system and the RSA encryption belong to the Node.js runtime; they are
  parameters: \<open>readFileSync path\<close> is the file's text or the error thrown, and
  \<open>rsa_encrypt certificate data\<close> is what \<^verbatim>\<open>crypto.publicEncrypt\<close> does with a certificate
  it could read: the ciphertext (as a byte string) or the error thrown. One thing
  about \<^verbatim>\<open>crypto.publicEncrypt\<close> does not depend on the runtime and is modelled: before
  it can encrypt, it decodes the PEM text of the certificate, whose lines between the
  \<^verbatim>\<open>BEGIN\<close> and \<^verbatim>\<open>END\<close> markers are base64, four characters for every three bytes. A
  text whose base64 characters do not come in whole groups of four cannot be decoded,
  and the call throws (\<open>decode_error\<close> is the error the runtime throws then).
\<close>

record node_runtime =
  readFileSync :: "string \<Rightarrow> error + string"
  rsa_encrypt :: "string \<Rightarrow> string \<Rightarrow> error + string"
  decode_error :: "string \<Rightarrow> error"

definition join_lines :: "string list \<Rightarrow> string" where
  "join_lines ls =
     (case ls of [] \<Rightarrow> [] | l # rest \<Rightarrow> foldl (\<lambda>acc x. acc @ [CHR 0x0A] @ x) l rest)"

text \<open>The lines of a text, split at the line feeds.\<close>

definition split_lines :: "string \<Rightarrow> string list" where
  "split_lines text =
     foldr (\<lambda>c acc. if c = CHR 0x0A then [] # acc
                      else (case acc of [] \<Rightarrow> [[c]] | l # ls \<Rightarrow> (c # l) # ls))
       text [[]]"

text \<open>
  The base64 characters of a certificate text that consists of the \<^verbatim>\<open>BEGIN\<close> line, body
  lines and the \<^verbatim>\<open>END\<close> line and nothing else (white space within the body does not
  count); \<open>None\<close> for a text of any other form.
\<close>

definition pem_body :: "string \<Rightarrow> string option" where
  "pem_body text =
     (case split_lines text of
        [] \<Rightarrow> None
      | first # rest \<Rightarrow>
          if first = ''-----BEGIN CERTIFICATE-----'' \<and> rest \<noteq> [] \<and>
             last rest = ''-----END CERTIFICATE-----''
          then Some (filter (\<lambda>c. \<not> is_space c) (concat (butlast rest)))
          else None)"

fun whole_groups :: "string \<Rightarrow> bool" where
  "whole_groups [] = True"
| "whole_groups (a # b # c # d # rest) = whole_groups rest"
| "whole_groups rest = False"

definition undecodable :: "string \<Rightarrow> bool" where
  "undecodable text = (case pem_body text of None \<Rightarrow> False | Some b \<Rightarrow> \<not> whole_groups b)"

text \<open>
  \<^verbatim>\<open>crypto.publicEncrypt({ key: certificate, padding: ... }, Buffer.from(password))\<close>.
  For a text that is not of the plain form above, or whose body has whole groups, the
  outcome is the runtime's.
\<close>

definition publicEncrypt :: "node_runtime \<Rightarrow> string \<Rightarrow> string \<Rightarrow> error + string" where
  "publicEncrypt rt certificate data =
     (if undecodable certificate then Inl (decode_error rt certificate)
      else rsa_encrypt rt certificate data)"

text \<open>The built-in certificate, line for line as in \<^verbatim>\<open>utils.ts\<close>.\<close>

definition SANDBOX_CERTIFICATE :: string where
  "SANDBOX_CERTIFICATE = join_lines
     [''-----BEGIN CERTIFICATE-----'',
      ''MIIGkzCCBXugAwIBAgIKXfBp5gAAADU/ODANBgkqhkiG9w0BAQsFADBbMRMwEQYK'',
      ''CZImiZPyLGQBGRYDbmV0MRkwFwYKCZImiZPyLGQBGRYJc2FmYXJpY29tMSkwJwYD'',
      ''VQQDEyBTYWZhcmljb20gSW50ZXJuYWwgSXNzdWluZyBDQSAwMjAeFw0xNzA0MjUx'',
      ''NjA3MjRaFw0xOTA0MjUxNjA3MjRaMIGNMQswCQYDVQQGEwJLRTEQMA4GA1UECBMH'',
      ''TmFpcm9iaTEQMA4GA1UEBxMHTmFpcm9iaTEaMBgGA1UEChMRU2FmYXJpY29tIExp'',
      ''bWl0ZWQxEzARBgNVBAsTClRlY2hub2xvZ3kxKTAnBgNVBAMTIGFwaWdlZS5hcGlj'',
      ''YWxsZXIuc2FmYXJpY29tLmNvLmtlMIIBIjANBgkqhkiG9w0BAQEFAAOCAQ8AMIIB'',
      ''CgKCAQEAoknIb5Tm1hxOVdFsOejAs6veAai32K7ZkJOCkS1Ka5KGgIF21bv1PMMK'',
      ''Rj3J6DSXVITMjPQSPVVL1YkFHMOCJIqI4oBSmTNaGzieiwkbYRa1ijZOrRaGcy4A'',
      ''gJ7VKfIHl4T2pGU2V00JZAIVOOgLNnJOIVzEh1SZGJLlCmlNakJE2bbZDrv1BS5O'',
      ''c4/VhDyDaSqiHxBSmTPKkjaCC8i9r8VfVD5n3C6BbEULNuBDMHEN5xNP/jQ1bv0I'',
      ''q2fgR9FoFvh0sJFqhiPIU5jmBiP1Dq0eXbLvBvpbvYVZ3uORDW0lhDQSeFPnEXM'',
      ''bgm/nz1hJPEb+wGTV/KxHqFY6xdfgQIDAQABo4IDJDCCAyAwHQYDVR0OBBYEFL9+'',
      ''EGBcM/Kt+3GUjGsmqXmdb2goMB8GA1UdIwQYMBaAFCy0EYDyMnJv94tFyAfhmXAz'',
      ''SxAdMIIBOwYDVR0fBIIBMjCCAS4wggEqoIIBJqCCASKGgdZsZGFwOi8vL0NOPVNh'',
      ''ZmFyaWNvbSUyMEludGVybmFsJTIwSXNzdWluZyUyMENBJTIwMDIsQ049U1ZSTFNB'',
      ''RkNBMDIuQ049Q0RQLENOPVB1YmxpYyUyMEtleSUyMFNlcnZpY2VzLENOPVNlcnZp'',
      ''Y2VzLENOPUNvbmZpZ3VyYXRpb24sREM9c2FmYXJpY29tLERDPW5ldD9jZXJ0aWZp'',
      ''Y2F0ZVJldm9jYXRpb25MaXN0P2Jhc2U/b2JqZWN0Q2xhc3M9Y1JMRGlzdHJpYnV0'',
      ''aW9uUG9pbnSGR2h0dHA6Ly9jcmwuc2FmYXJpY29tLmNvLmtlL1NhZmFyaWNvbSUy'',
      ''MEludGVybmFsJTIwSXNzdWluZyUyMENBJTIwMDIuY3JsMIIBLgYIKwYBBQUHAQEE'',
      ''ggEgMIIBHDCBzAYIKwYBBQUHMAKGgb9sZGFwOi8vL0NOPVNhZmFyaWNvbSUyMElu'',
      ''dGVybmFsJTIwSXNzdWluZyUyMENBJTIwMDIsQ049QUlBLENOPVB1YmxpYyUyMEtl'',
      ''eSUyMFNlcnZpY2VzLENOPVNlcnZpY2VzLENOPUNvbmZpZ3VyYXRpb24sREM9c2Fm'',
      ''YXJpY29tLERDPW5ldD9jQUNlcnRpZmljYXRlP2Jhc2U/b2JqZWN0Q2xhc3M9Y2Vy'',
      ''dGlmaWNhdGlvbkF1dGhvcml0eTBLBggrBgEFBQcwAoY/aHR0cDovL2NybC5zYWZh'',
      ''cmljb20uY28ua2UvU2FmYXJpY29tJTIwSW50ZXJuYWwlMjBJc3N1aW5nJTIwQ0Eu'',
      ''Y3J0MAsGA1UdDwQEAwIFoDA9BgkrBgEEAYI3FQcEMDAuBiYrBgEEAYI3FQiHz4Rh'',
      ''gZKNSIeanQqBiemFG4HYnQd2gYLiEQIBZAIBDTAdBgNVHSUEFjAUBggrBgEFBQcD'',
      ''AQYIKwYBBQUHAwIwJwYJKwYBBAGCNxUKBBowGDAKBggrBgEFBQcDATAKBggrBgEF'',
      ''BQcDAjANBgkqhkiG9w0BAQsFAAOCAQEAjjBpMhrikCwsGvXEC8ApFW9HJjFBIk/p'',
      ''aMaE7PSG1sHaZPMriDTz8GiH0uoSp6j0/NikvOfkQhQHPPUVH8k2d7X5Rymqixau'',
      ''5v7qEN1UBRrJvJZxUmJaGhpv8N3SbczH/j4+iVY8Fk/UJYIFt00g2e10h5uKZXSd'',
      ''Qfm/JAB7WPjMzIr6LxUqZjNTsIVvJmN3TlEB0yPz1EGiZCGlrL5WSFS/XvK+/vB'',
      ''TY28TGfN+iA8z5NW8MH2JB8JUL2S+JvJT8J2fPKxL9U6/1DOz7GM7NUxevHQkSnx'',
      ''F2Ci/e5dMIZXrlr0iLkaSj67LMF8bL7F8A9+2dV9SNKZ12C32BI5wQ=='',
      ''-----END CERTIFICATE-----'']"

definition generateSecurityCredential ::
  "node_runtime \<Rightarrow> string \<Rightarrow> string option \<Rightarrow> error + string"
where
  "generateSecurityCredential rt password certificatePath =
     (case (case certificatePath of
              None \<Rightarrow> Inr SANDBOX_CERTIFICATE
            | Some path \<Rightarrow>
                if path = [] then Inr SANDBOX_CERTIFICATE else readFileSync rt path) of
        Inl error \<Rightarrow> Inl error
      | Inr certificate \<Rightarrow>
          (case publicEncrypt rt certificate password of
             Inl error \<Rightarrow> Inl error
           | Inr encrypted \<Rightarrow> Inr (base64 encrypted)))"

section \<open>The client (\<^verbatim>\<open>mpesa.ts\<close>)\<close>

subsection \<open>Configuration and the client object\<close>

datatype environment = sandbox | production

record MpesaConfig =
  consumerKey :: string
  consumerSecret :: string
  businessShortCode :: string
  passKey :: string
  environment :: "environment option"
  callbackUrl :: string
  timeout :: "int option"
  initiatorName :: "string option"
  initiatorPassword :: "string option"
  certificatePath :: "string option"
  debug :: "bool option"
  retries :: "int option"

record endpoints =
  auth :: string
  api :: string

definition URLS :: "environment \<Rightarrow> endpoints" where
  "URLS e = (case e of
       sandbox \<Rightarrow> \<lparr>auth = ''https://sandbox.safaricom.co.ke/oauth/v1/generate?grant_type=client_credentials'',
                   api = ''https://sandbox.safaricom.co.ke''\<rparr>
     | production \<Rightarrow> \<lparr>auth = ''https://api.safaricom.co.ke/oauth/v1/generate?grant_type=client_credentials'',
                      api = ''https://api.safaricom.co.ke''\<rparr>)"

text \<open>
  The private fields of \<^verbatim>\<open>class Mpesa\<close>. \<open>accessToken\<close> is \<^verbatim>\<open>string | null\<close> and starts
  as \<^verbatim>\<open>null\<close>; \<open>tokenExpiry\<close> starts as 0. The fields \<^verbatim>\<open>timeout\<close> and \<^verbatim>\<open>debug\<close> carry
  the suffix \<open>_ms\<close> and \<open>_on\<close> here, the configuration record having fields of the same
  names.
\<close>

record Mpesa =
  config :: MpesaConfig
  urls :: endpoints
  timeout_ms :: int
  debug_on :: bool
  maxRetries :: int
  accessToken :: "string option"
  tokenExpiry :: number

text \<open>\<^verbatim>\<open>a || b\<close> on an optional number: \<^verbatim>\<open>undefined\<close> and 0 are falsy.\<close>

definition number_or :: "int option \<Rightarrow> int \<Rightarrow> int" where
  "number_or a d = (case a of None \<Rightarrow> d | Some x \<Rightarrow> if x = 0 then d else x)"

text \<open>\<^verbatim>\<open>a || b\<close> on an optional string: \<^verbatim>\<open>undefined\<close> and the empty string are falsy.\<close>

definition string_or :: "string option \<Rightarrow> string \<Rightarrow> string" where
  "string_or a d = (case a of None \<Rightarrow> d | Some s \<Rightarrow> if s = [] then d else s)"

text \<open>
  \<^verbatim>\<open>
  constructor(config: MpesaConfig) {
      if (!config.consumerKey) throw new MpesaValidationError('consumerKey is required', 'consumerKey');
      if (!config.consumerSecret) throw new MpesaValidationError('consumerSecret is required', 'consumerSecret');
      if (!config.businessShortCode) throw new MpesaValidationError('businessShortCode is required', 'businessShortCode');
      if (!config.passKey) throw new MpesaValidationError('passKey is required', 'passKey');
      if (!config.callbackUrl) throw new MpesaValidationError('callbackUrl is required', 'callbackUrl');
      this.config = config;
      this.urls = URLS[config.environment || 'sandbox'];
      this.timeout = config.timeout || 30000;
      this.debug = config.debug || false;
      this.maxRetries = config.retries || 0;
  }
  \<close>
\<close>

definition required :: "string \<Rightarrow> error" where
  "required field = MpesaValidationError (field @ '' is required'') (Some field)"

definition new_Mpesa :: "MpesaConfig \<Rightarrow> error + Mpesa" where
  "new_Mpesa c =
     (if consumerKey c = [] then Inl (required ''consumerKey'')
      else if consumerSecret c = [] then Inl (required ''consumerSecret'')
      else if businessShortCode c = [] then Inl (required ''businessShortCode'')
      else if passKey c = [] then Inl (required ''passKey'')
      else if callbackUrl c = [] then Inl (required ''callbackUrl'')
      else Inr \<lparr>config = c,
                urls = URLS (case environment c of None \<Rightarrow> sandbox | Some e \<Rightarrow> e),
                timeout_ms = number_or (timeout c) 30000,
                debug_on = (case debug c of None \<Rightarrow> False | Some b \<Rightarrow> b),
                maxRetries = number_or (retries c) 0,
                accessToken = None,
                tokenExpiry = Num 0\<rparr>)"

subsection \<open>The outside world\<close>

text \<open>
  A request as handed to \<^verbatim>\<open>fetch\<close>. The body is kept as the object that
  \<^verbatim>\<open>JSON.stringify\<close> serialises.
\<close>

datatype json_value = JString string | JNumber int

record request =
  url :: string
  http_method :: string
  headers :: "(string \<times> string) list"
  body :: "(string \<times> json_value) list option"

text \<open>
  A response as the code reads it: \<^verbatim>\<open>status\<close>, \<^verbatim>\<open>statusText\<close>, and the results of
  \<^verbatim>\<open>response.json()\<close> and \<^verbatim>\<open>response.text()\<close> (\<open>Inl e\<close> when the promise rejects with
  \<open>e\<close>). The parsed body of the token exchange has the type the source casts it to; the
  parsed body of an API call is any JSON value. \<^verbatim>\<open>response.ok\<close> is, by the Fetch
  standard, the status being in the range 200 to 299.
\<close>

record 'a response =
  status :: nat
  statusText :: string
  body_json :: "error + 'a"
  body_text :: "error + string"

definition ok :: "'a response \<Rightarrow> bool" where
  "ok r = (200 \<le> status r \<and> status r \<le> 299)"

record AccessTokenResponse =
  access_token :: string
  expires_in :: string

type_synonym api_data = json

text \<open>
  The network and the clock are scripts fixed in advance: the outcome of the \<open>k\<close>-th call
  of \<^verbatim>\<open>fetch\<close> (a response, or \<open>Inl e\<close> when the promise rejects: an \<^verbatim>\<open>AbortError\<close> when
  the timeout timer fired, a \<^verbatim>\<open>TypeError\<close> when the network failed), and the value of the
  \<open>k\<close>-th call of \<^verbatim>\<open>Date.now()\<close>. The world records what the client did: every request
  and every awaited delay, in order.
\<close>

record env =
  auth_net :: "nat \<Rightarrow> error + AccessTokenResponse response"
  api_net :: "nat \<Rightarrow> error + api_data response"
  clock :: "nat \<Rightarrow> int"

datatype event = Fetch request | Sleep int

record world =
  trace :: "event list"
  fetches :: nat
  clock_reads :: nat

definition Date_now :: "env \<Rightarrow> world \<Rightarrow> int \<times> world" where
  "Date_now e w = (clock e (clock_reads w), w\<lparr>clock_reads := Suc (clock_reads w)\<rparr>)"

definition sleep :: "int \<Rightarrow> world \<Rightarrow> world" where
  "sleep delay w = w\<lparr>trace := trace w @ [Sleep delay]\<rparr>"

subsection \<open>fetchWithTimeout\<close>

text \<open>
  \<^verbatim>\<open>
  private async fetchWithTimeout(url, options): Promise<Response> {
      const controller = new AbortController();
      const timeoutId = setTimeout(() => controller.abort(), this.timeout);
      try {
          const response = await fetch(url, { ...options, signal: controller.signal });
          return response;
      } catch (error) {
          if (error instanceof Error && error.name === 'AbortError') {
              throw new MpesaApiError(`Request timed out after ${this.timeout}ms`);
          }
          throw error;
      } finally {
          clearTimeout(timeoutId);
      }
  }
  \<close>
\<close>

fun error_name :: "error \<Rightarrow> string" where
  "error_name (Error n m) = n"
| "error_name (MpesaAuthError m s p) = ''MpesaAuthError''"
| "error_name (MpesaApiError m s p c) = ''MpesaApiError''"
| "error_name (MpesaValidationError m f) = ''MpesaValidationError''"

definition timed_out :: "Mpesa \<Rightarrow> error" where
  "timed_out this =
     MpesaApiError (''Request timed out after '' @ show_int (timeout_ms this) @ ''ms'')
       None NoPayload None"

text \<open>The \<^verbatim>\<open>try\<close>/\<^verbatim>\<open>catch\<close> around \<^verbatim>\<open>fetch\<close>: what the caller sees of the promise's outcome.\<close>

definition settle :: "Mpesa \<Rightarrow> error + 'a response \<Rightarrow> error + 'a response" where
  "settle this outcome =
     (case outcome of
        Inr response \<Rightarrow> Inr response
      | Inl error \<Rightarrow>
          if error_name error = ''AbortError'' then Inl (timed_out this) else Inl error)"

definition fetchWithTimeout ::
  "(nat \<Rightarrow> error + 'a response) \<Rightarrow> Mpesa \<Rightarrow> request \<Rightarrow> world \<Rightarrow> (error + 'a response) \<times> world"
where
  "fetchWithTimeout net this req w =
     (settle this (net (fetches w)),
      w\<lparr>trace := trace w @ [Fetch req], fetches := Suc (fetches w)\<rparr>)"

subsection \<open>getAccessToken\<close>

text \<open>
  \<^verbatim>\<open>
  private async getAccessToken(): Promise<string> {
      if (this.accessToken && Date.now() < this.tokenExpiry) {
          return this.accessToken;
      }
      const credentials = Buffer.from(
          `${this.config.consumerKey}:${this.config.consumerSecret}`
      ).toString('base64');
      const response = await this.fetchWithTimeout(this.urls.auth, {
          method: 'GET',
          headers: { Authorization: `Basic ${credentials}` },
      });
      if (!response.ok) {
          const body = await response.text().catch(() => '');
          throw new MpesaAuthError(
              `Authentication failed: ${response.status} ${response.statusText}`,
              response.status,
              body
          );
      }
      const data = (await response.json()) as AccessTokenResponse;
      this.accessToken = data.access_token;
      this.tokenExpiry = Date.now() + (parseInt(data.expires_in) * 1000) - 60000;
      return this.accessToken;
  }
  \<close>
  The guard reads the clock only when a non-empty token is stored (\<^verbatim>\<open>&&\<close> short-circuits;
  \<^verbatim>\<open>null\<close> and the empty string are falsy).
\<close>

definition cached_token :: "env \<Rightarrow> Mpesa \<Rightarrow> world \<Rightarrow> string option \<times> world" where
  "cached_token e this w =
     (case accessToken this of
        None \<Rightarrow> (None, w)
      | Some t \<Rightarrow>
          if t = [] then (None, w)
          else (let (now, w') = Date_now e w
                in (if number_less (Num now) (tokenExpiry this) then Some t else None, w')))"

definition auth_request :: "Mpesa \<Rightarrow> request" where
  "auth_request this =
     \<lparr>url = auth (urls this), http_method = ''GET'',
      headers = [(''Authorization'',
        ''Basic '' @ base64 (consumerKey (config this) @ '':'' @ consumerSecret (config this)))],
      body = None\<rparr>"

definition auth_failed :: "'a response \<Rightarrow> error" where
  "auth_failed response =
     MpesaAuthError
       (''Authentication failed: '' @ show_nat (status response) @ '' '' @ statusText response)
       (Some (status response))
       (Text (case body_text response of Inl e \<Rightarrow> [] | Inr b \<Rightarrow> b))"

definition getAccessToken :: "env \<Rightarrow> Mpesa \<Rightarrow> world \<Rightarrow> (error + string) \<times> Mpesa \<times> world" where
  "getAccessToken e this w =
     (let (cached, w1) = cached_token e this w
      in case cached of
           Some t \<Rightarrow> (Inr t, this, w1)
         | None \<Rightarrow>
             (let (fetched, w2) = fetchWithTimeout (auth_net e) this (auth_request this) w1
              in case fetched of
                   Inl error \<Rightarrow> (Inl error, this, w2)
                 | Inr response \<Rightarrow>
                     if \<not> ok response then (Inl (auth_failed response), this, w2)
                     else (case body_json response of
                             Inl error \<Rightarrow> (Inl error, this, w2)
                           | Inr data \<Rightarrow>
                               (let (now, w3) = Date_now e w2;
                                    expiry = number_sub
                                      (number_add (Num now)
                                         (number_mul (parseInt (expires_in data)) (Num 1000)))
                                      (Num 60000)
                                in (Inr (access_token data),
                                    this\<lparr>accessToken := Some (access_token data),
                                         tokenExpiry := expiry\<rparr>,
                                    w3)))))"

text \<open>The guard \<^verbatim>\<open>this.accessToken && Date.now() < this.tokenExpiry\<close> on its own.\<close>

definition token_fresh :: "env \<Rightarrow> Mpesa \<Rightarrow> world \<Rightarrow> bool" where
  "token_fresh e this w =
     (case accessToken this of
        None \<Rightarrow> False
      | Some t \<Rightarrow> t \<noteq> [] \<and> number_less (Num (clock e (clock_reads w))) (tokenExpiry this))"

subsection \<open>apiRequest\<close>

text \<open>
  \<^verbatim>\<open>
  private async apiRequest<T>(path, body, token): Promise<T> {
      const url = `${this.urls.api}${path}`;
      let lastError: Error | null = null;
      for (let attempt = 0; attempt <= this.maxRetries; attempt++) {
          try {
              if (attempt > 0) {
                  const delay = Math.min(1000 * Math.pow(2, attempt - 1), 10000);
                  await new Promise(resolve => setTimeout(resolve, delay));
              }
              const response = await this.fetchWithTimeout(url, {
                  method: 'POST',
                  headers: { 'Content-Type': 'application/json', Authorization: `Bearer ${token}` },
                  body: JSON.stringify(body),
              });
              const data = await response.json().catch(() => ({}));
              if (!response.ok) {
                  const errorMessage = data.errorMessage || data.ResultDesc ||
                      `API request failed: ${response.status} ${response.statusText}`;
                  const error = new MpesaApiError(errorMessage, response.status, data, data.errorCode);
                  // Only retry on 5xx server errors or network issues
                  if (response.status >= 500 && attempt < this.maxRetries) {
                      lastError = error;
                      continue;
                  }
                  throw error;
              }
              return data as T;
          } catch (error) {
              lastError = error instanceof Error ? error : new Error(String(error));
              // Don't retry on client errors (4xx) or validation errors
              if (error instanceof MpesaApiError && error.statusCode && error.statusCode < 500) {
                  throw error;
              }
              if (attempt >= this.maxRetries) {
                  throw lastError;
              }
          }
      }
      throw lastError || new MpesaApiError('Request failed after all retries');
  }
  \<close>
  The calls of \<^verbatim>\<open>this.log\<close> are left out: they print to the console when \<^verbatim>\<open>debug\<close> is set
  and change nothing else. One pass through the loop body ends in one of three ways:
  the function returns, it throws, or the loop goes on with \<^verbatim>\<open>lastError\<close> set.
\<close>

datatype 'a step = Return 'a | Throw error | Continue error

definition backoff_delay :: "int \<Rightarrow> int" where
  "backoff_delay attempt = min (1000 * 2 ^ nat (attempt - 1)) 10000"

definition api_request :: "string \<Rightarrow> (string \<times> json_value) list \<Rightarrow> string \<Rightarrow> request" where
  "api_request u b token =
     \<lparr>url = u, http_method = ''POST'',
      headers = [(''Content-Type'', ''application/json''),
                 (''Authorization'', ''Bearer '' @ token)],
      body = Some b\<rparr>"

text \<open>\<^verbatim>\<open>await response.json().catch(() => ({}))\<close>: the parsed body, the empty object when
  parsing fails.\<close>

definition response_data :: "api_data response \<Rightarrow> api_data" where
  "response_data response = (case body_json response of Inl e \<Rightarrow> JObj [] | Inr d \<Rightarrow> d)"

text \<open>
  The two statements of the \<^verbatim>\<open>!response.ok\<close> branch that build the error. Their first
  property read, \<^verbatim>\<open>data.errorMessage\<close>, throws a \<^verbatim>\<open>TypeError\<close> when the body parsed to
  \<^verbatim>\<open>null\<close> (\<open>Inl\<close>). For any other body they build the \<^verbatim>\<open>MpesaApiError\<close> \<open>api_error\<close>
  (\<open>Inr\<close>).
\<close>

definition api_error :: "api_data response \<Rightarrow> error" where
  "api_error response =
     (let data = response_data response;
          errorMessage =
            json_or (property data ''errorMessage'')
              (json_or (property data ''ResultDesc'')
                 (''API request failed: '' @ show_nat (status response) @ '' '' @
                  statusText response))
      in MpesaApiError errorMessage (Some (status response)) (Data data)
           (property data ''errorCode''))"

definition build_api_error :: "api_data response \<Rightarrow> error + error" where
  "build_api_error response =
     (if response_data response = JNull then Inl (null_property_error ''errorMessage'')
      else Inr (api_error response))"

text \<open>\<^verbatim>\<open>error instanceof MpesaApiError && error.statusCode && error.statusCode < 500\<close>.\<close>

fun client_error :: "error \<Rightarrow> bool" where
  "client_error (MpesaApiError m (Some s) p c) = (s \<noteq> 0 \<and> s < 500)"
| "client_error e = False"

definition catch_block :: "Mpesa \<Rightarrow> int \<Rightarrow> error \<Rightarrow> 'a step" where
  "catch_block this attempt error =
     (if client_error error then Throw error
      else if attempt \<ge> maxRetries this then Throw error
      else Continue error)"

text \<open>
  The body of \<^verbatim>\<open>try\<close> after the request has settled. Whatever is thrown inside it, the
  \<^verbatim>\<open>TypeError\<close> of a \<^verbatim>\<open>null\<close> body included, is caught by the \<^verbatim>\<open>catch\<close> block.
\<close>

definition try_block :: "Mpesa \<Rightarrow> int \<Rightarrow> error + api_data response \<Rightarrow> api_data step" where
  "try_block this attempt fetched =
     (case fetched of
        Inl error \<Rightarrow> catch_block this attempt error
      | Inr response \<Rightarrow>
          if \<not> ok response then
            (case build_api_error response of
               Inl typeError \<Rightarrow> catch_block this attempt typeError
             | Inr error \<Rightarrow>
                 if status response \<ge> 500 \<and> attempt < maxRetries this
                 then Continue error
                 else catch_block this attempt error)
          else Return (response_data response))"

function apiRequest_loop ::
  "env \<Rightarrow> Mpesa \<Rightarrow> request \<Rightarrow> int \<Rightarrow> error option \<Rightarrow> world \<Rightarrow> (error + api_data) \<times> world"
where
  "apiRequest_loop e this req attempt lastError w =
     (if attempt \<le> maxRetries this then
        (let w1 = (if attempt > 0 then sleep (backoff_delay attempt) w else w);
             (fetched, w2) = fetchWithTimeout (api_net e) this req w1
         in case try_block this attempt fetched of
              Return data \<Rightarrow> (Inr data, w2)
            | Throw error \<Rightarrow> (Inl error, w2)
            | Continue error \<Rightarrow> apiRequest_loop e this req (attempt + 1) (Some error) w2)
      else (Inl (case lastError of
                   Some error \<Rightarrow> error
                 | None \<Rightarrow> MpesaApiError ''Request failed after all retries'' None NoPayload None),
            w))"
  by pat_completeness auto
termination
  by (relation "measure (\<lambda>(e, this, req, attempt, lastError, w). nat (maxRetries this + 1 - attempt))")
    auto

declare apiRequest_loop.simps [simp del]

definition apiRequest ::
  "env \<Rightarrow> Mpesa \<Rightarrow> string \<Rightarrow> (string \<times> json_value) list \<Rightarrow> string \<Rightarrow> world
     \<Rightarrow> (error + api_data) \<times> world"
where
  "apiRequest e this path b token w =
     apiRequest_loop e this (api_request (api (urls this) @ path) b token) 0 None w"

text \<open>
  What the loop leaves in the trace when it runs the attempts \<open>a, a + 1, \<dots>, a + n\<close>:
  each is one request, preceded by the backoff delay unless it is attempt 0.
\<close>

definition attempts :: "request \<Rightarrow> int \<Rightarrow> nat \<Rightarrow> event list" where
  "attempts req a n =
     concat (map (\<lambda>k. (if 0 < a + int k then [Sleep (backoff_delay (a + int k))] else []) @
                       [Fetch req])
       [0..<Suc n])"

subsection \<open>Security credentials and the initiator operations\<close>

text \<open>
  \<^verbatim>\<open>
  private getSecurityCredential(requestCredential?: string): string {
      if (requestCredential) return requestCredential;
      if (this.config.initiatorPassword) {
          return generateSecurityCredential(
              this.config.initiatorPassword,
              this.config.certificatePath
          );
      }
      return this.config.businessShortCode;
  }

  private getInitiatorName(requestInitiator?: string): string {
      return requestInitiator || this.config.initiatorName || this.config.businessShortCode;
  }
  \<close>
\<close>

text \<open>Truthiness of an optional string: \<^verbatim>\<open>undefined\<close> and the empty string are falsy.\<close>

definition truthy :: "string option \<Rightarrow> bool" where
  "truthy a = (case a of None \<Rightarrow> False | Some s \<Rightarrow> s \<noteq> [])"

definition getSecurityCredential ::
  "node_runtime \<Rightarrow> Mpesa \<Rightarrow> string option \<Rightarrow> error + string"
where
  "getSecurityCredential rt this requestCredential =
     (if truthy requestCredential then Inr (the requestCredential)
      else if truthy (initiatorPassword (config this))
        then generateSecurityCredential rt (the (initiatorPassword (config this)))
               (certificatePath (config this))
      else Inr (businessShortCode (config this)))"

definition getInitiatorName :: "Mpesa \<Rightarrow> string option \<Rightarrow> string" where
  "getInitiatorName this requestInitiator =
     string_or requestInitiator
       (string_or (initiatorName (config this)) (businessShortCode (config this)))"

text \<open>
  The six operations that send an initiator credential are \<^verbatim>\<open>b2cPayment\<close>,
  \<^verbatim>\<open>b2bPayment\<close>, \<^verbatim>\<open>accountBalance\<close>, \<^verbatim>\<open>transactionStatus\<close>, \<^verbatim>\<open>reversal\<close> and
  \<^verbatim>\<open>taxRemittance\<close>. Each request type has the four optional fields
  \<^verbatim>\<open>initiatorName\<close>, \<^verbatim>\<open>securityCredential\<close>, \<^verbatim>\<open>resultUrl\<close> and \<^verbatim>\<open>queueTimeoutUrl\<close>
  (record \<open>initiator_request\<close>, the first two under the names the helper methods give
  their arguments); the fields of its own are the arguments of the operation's
  constructor below, in the order of the request type and optional where the type
  says so. Amounts are whole numbers, on which \<^verbatim>\<open>Math.round\<close> is the identity.
\<close>

record initiator_request =
  requestInitiator :: "string option"
  requestCredential :: "string option"
  resultUrl :: "string option"
  queueTimeoutUrl :: "string option"

datatype operation =
    B2C string int "string option" "string option" "string option"
  | B2B string int "string option" "string option" "string option" "string option"
  | AccountBalance
  | TransactionStatus string
  | Reversal string int "string option" "string option"
  | TaxRemittance int string string "string option"

fun operation_path :: "operation \<Rightarrow> string" where
  "operation_path (B2C phone amt commandId remarks occasion) = ''/mpesa/b2c/v1/paymentrequest''"
| "operation_path (B2B receiver amt commandId receiverType accountRef remarks) =
     ''/mpesa/b2b/v1/paymentrequest''"
| "operation_path AccountBalance = ''/mpesa/accountbalance/v1/query''"
| "operation_path (TransactionStatus transactionId) = ''/mpesa/transactionstatus/v1/query''"
| "operation_path (Reversal transactionId amt remarks occasion) = ''/mpesa/reversal/v1/request''"
| "operation_path (TaxRemittance amt accountRef receiver remarks) = ''/mpesa/tax/v1/remittance''"

text \<open>
  The body each operation builds once the credential \<open>cred\<close> (and, for B2C, the
  formatted phone number) is at hand; the fields are in the order of the source.
\<close>

fun operation_fields ::
  "Mpesa \<Rightarrow> initiator_request \<Rightarrow> string \<Rightarrow> string \<Rightarrow> operation \<Rightarrow> (string \<times> json_value) list"
where
  "operation_fields this req cred phone (B2C phoneNumber amt commandId remarks occasion) =
     [(''InitiatorName'', JString (getInitiatorName this (requestInitiator req))),
      (''SecurityCredential'', JString cred),
      (''CommandID'', JString (string_or commandId ''BusinessPayment'')),
      (''Amount'', JNumber amt),
      (''PartyA'', JString (businessShortCode (config this))),
      (''PartyB'', JString phone),
      (''Remarks'', JString (string_or remarks ''Payment'')),
      (''QueueTimeOutURL'', JString (string_or (queueTimeoutUrl req) (callbackUrl (config this)))),
      (''ResultURL'', JString (string_or (resultUrl req) (callbackUrl (config this)))),
      (''Occassion'', JString (string_or occasion []))]"
| "operation_fields this req cred phone (B2B receiver amt commandId receiverType accountRef remarks) =
     [(''Initiator'', JString (getInitiatorName this (requestInitiator req))),
      (''SecurityCredential'', JString cred),
      (''CommandID'', JString (string_or commandId ''BusinessPayBill'')),
      (''SenderIdentifierType'', JString ''4''),
      (''RecieverIdentifierType'', JString (string_or receiverType ''4'')),
      (''Amount'', JNumber amt),
      (''PartyA'', JString (businessShortCode (config this))),
      (''PartyB'', JString receiver),
      (''AccountReference'', JString (string_or accountRef [])),
      (''Remarks'', JString (string_or remarks ''B2B Payment'')),
      (''QueueTimeOutURL'', JString (string_or (queueTimeoutUrl req) (callbackUrl (config this)))),
      (''ResultURL'', JString (string_or (resultUrl req) (callbackUrl (config this))))]"
| "operation_fields this req cred phone AccountBalance =
     [(''Initiator'', JString (getInitiatorName this (requestInitiator req))),
      (''SecurityCredential'', JString cred),
      (''CommandID'', JString ''AccountBalance''),
      (''PartyA'', JString (businessShortCode (config this))),
      (''IdentifierType'', JString ''4''),
      (''Remarks'', JString ''Account Balance Query''),
      (''QueueTimeOutURL'', JString (string_or (queueTimeoutUrl req) (callbackUrl (config this)))),
      (''ResultURL'', JString (string_or (resultUrl req) (callbackUrl (config this))))]"
| "operation_fields this req cred phone (TransactionStatus transactionId) =
     [(''Initiator'', JString (getInitiatorName this (requestInitiator req))),
      (''SecurityCredential'', JString cred),
      (''CommandID'', JString ''TransactionStatusQuery''),
      (''TransactionID'', JString transactionId),
      (''PartyA'', JString (businessShortCode (config this))),
      (''IdentifierType'', JString ''4''),
      (''ResultURL'', JString (string_or (resultUrl req) (callbackUrl (config this)))),
      (''QueueTimeOutURL'', JString (string_or (queueTimeoutUrl req) (callbackUrl (config this)))),
      (''Remarks'', JString ''Transaction Status Query''),
      (''Occasion'', JString [])]"
| "operation_fields this req cred phone (Reversal transactionId amt remarks occasion) =
     [(''Initiator'', JString (getInitiatorName this (requestInitiator req))),
      (''SecurityCredential'', JString cred),
      (''CommandID'', JString ''TransactionReversal''),
      (''TransactionID'', JString transactionId),
      (''Amount'', JNumber amt),
      (''ReceiverParty'', JString (businessShortCode (config this))),
      (''RecieverIdentifierType'', JString ''4''),
      (''ResultURL'', JString (string_or (resultUrl req) (callbackUrl (config this)))),
      (''QueueTimeOutURL'', JString (string_or (queueTimeoutUrl req) (callbackUrl (config this)))),
      (''Remarks'', JString (string_or remarks ''Reversal'')),
      (''Occasion'', JString (string_or occasion []))]"
| "operation_fields this req cred phone (TaxRemittance amt accountRef receiver remarks) =
     [(''Initiator'', JString (getInitiatorName this (requestInitiator req))),
      (''SecurityCredential'', JString cred),
      (''CommandID'', JString ''PayTaxToKRA''),
      (''SenderIdentifierType'', JString ''4''),
      (''RecieverIdentifierType'', JString ''4''),
      (''Amount'', JNumber amt),
      (''PartyA'', JString (businessShortCode (config this))),
      (''PartyB'', JString receiver),
      (''AccountReference'', JString accountRef),
      (''Remarks'', JString (string_or remarks ''Tax Remittance'')),
      (''QueueTimeOutURL'', JString (string_or (queueTimeoutUrl req) (callbackUrl (config this)))),
      (''ResultURL'', JString (string_or (resultUrl req) (callbackUrl (config this))))]"

text \<open>Only \<^verbatim>\<open>b2cPayment\<close> formats a phone number, before it builds the body.\<close>

fun operation_phone :: "operation \<Rightarrow> error + string" where
  "operation_phone (B2C phoneNumber amt commandId remarks occasion) = formatPhoneNumber phoneNumber"
| "operation_phone operation = Inr []"

definition operation_body ::
  "node_runtime \<Rightarrow> Mpesa \<Rightarrow> initiator_request \<Rightarrow> operation \<Rightarrow> error + (string \<times> json_value) list"
where
  "operation_body rt this req operation =
     (case operation_phone operation of
        Inl error \<Rightarrow> Inl error
      | Inr phone \<Rightarrow>
          (case getSecurityCredential rt this (requestCredential req) of
             Inl error \<Rightarrow> Inl error
           | Inr cred \<Rightarrow> Inr (operation_fields this req cred phone operation)))"

text \<open>
  Every operation has the same shape:
  \<^verbatim>\<open>
  async b2cPayment(request: B2CRequest): Promise<B2CResponse> {
      const token = await this.getAccessToken();
      const phone = formatPhoneNumber(request.phoneNumber);
      const body = { ...,
          SecurityCredential: this.getSecurityCredential(request.securityCredential), ... };
      return this.apiRequest<B2CResponse>('/mpesa/b2c/v1/paymentrequest', body, token);
  }
  \<close>
\<close>

definition initiator_operation ::
  "env \<Rightarrow> node_runtime \<Rightarrow> Mpesa \<Rightarrow> initiator_request \<Rightarrow> operation \<Rightarrow> world
     \<Rightarrow> (error + api_data) \<times> Mpesa \<times> world"
where
  "initiator_operation e rt this req operation w =
     (case getAccessToken e this w of
        (Inl error, this1, w1) \<Rightarrow> (Inl error, this1, w1)
      | (Inr token, this1, w1) \<Rightarrow>
          (case operation_body rt this1 req operation of
             Inl error \<Rightarrow> (Inl error, this1, w1)
           | Inr b \<Rightarrow>
               (let (result, w2) = apiRequest e this1 (operation_path operation) b token w1
                in (result, this1, w2))))"

section \<open>Callback handling (\<^verbatim>\<open>express.ts\<close>)\<close>

subsection \<open>parseStkCallback\<close>

text \<open>
  The payload types of \<^verbatim>\<open>types.ts\<close>: \<^verbatim>\<open>StkCallbackData\<close> is
  \<^verbatim>\<open>{ Body: { stkCallback: {...} } }\<close>, and the optional \<^verbatim>\<open>CallbackMetadata\<close> is
  \<^verbatim>\<open>{ Item: StkCallbackItem[] }\<close>, held here as the optional list of items.
\<close>

record StkCallbackItem =
  Name :: string
  Value :: item_value

record StkCallback =
  MerchantRequestID :: string
  CheckoutRequestID :: string
  ResultCode :: int
  ResultDesc :: string
  CallbackMetadata :: "StkCallbackItem list option"

record CallbackBody =
  stkCallback :: StkCallback

record StkCallbackData =
  Body :: CallbackBody

record StkCallbackResult =
  success :: bool
  resultCode :: int
  resultDesc :: string
  merchantRequestId :: string
  checkoutRequestId :: string
  mpesaReceiptNumber :: "string option"
  transactionDate :: "Date option"
  phoneNumber :: "string option"
  amount :: "number option"

text \<open>
  \<^verbatim>\<open>Number(x)\<close> on a \<^verbatim>\<open>string | number\<close>. A string is trimmed; the empty string is 0, an
  optionally signed run of decimal digits or \<^verbatim>\<open>0x\<close> followed by hexadecimal digits is
  that integer, and a string that is no number is \<open>NaN\<close>. Numeric literals with a
  fraction, an exponent or another radix prefix denote numbers outside the integer
  model of this theory and are read as \<open>NaN\<close> here as well; no property below depends on
  the value of \<open>amount\<close> for such a string.
\<close>

definition trim :: "string \<Rightarrow> string" where
  "trim s = rev (dropWhile is_space (rev (dropWhile is_space s)))"

definition Number_of_string :: "string \<Rightarrow> number" where
  "Number_of_string s =
     (let t = trim s;
          neg = startsWith t ''-'';
          u = (if startsWith t ''-'' \<or> startsWith t ''+'' then drop 1 t else t)
      in if t = [] then Num 0
         else if (startsWith t ''0x'' \<or> startsWith t ''0X'') \<and> drop 2 t \<noteq> [] \<and>
                 list_all is_hex_digit (drop 2 t)
           then Num (int (digits_value 16 hex_val (drop 2 t)))
         else if u \<noteq> [] \<and> list_all is_digit u
           then (if neg then Num (- int (digits_value 10 digit_val u))
                 else Num (int (digits_value 10 digit_val u)))
         else NaN)"

fun Number_of_value :: "item_value \<Rightarrow> number" where
  "Number_of_value (NumberValue n) = Num n"
| "Number_of_value (StringValue s) = Number_of_string s"

text \<open>
  \<^verbatim>\<open>
  export function parseStkCallback(body: StkCallbackData): StkCallbackResult {
      const callback = body.Body.stkCallback;
      const result: StkCallbackResult = {
          success: callback.ResultCode === 0,
          resultCode: callback.ResultCode,
          resultDesc: callback.ResultDesc,
          merchantRequestId: callback.MerchantRequestID,
          checkoutRequestId: callback.CheckoutRequestID,
          mpesaReceiptNumber: null,
          transactionDate: null,
          phoneNumber: null,
          amount: null,
      };
      if (callback.ResultCode === 0 && callback.CallbackMetadata) {
          for (const item of callback.CallbackMetadata.Item) {
              switch (item.Name) {
                  case 'MpesaReceiptNumber':
                      result.mpesaReceiptNumber = String(item.Value); break;
                  case 'TransactionDate':
                      result.transactionDate = parseSafaricomDate(item.Value); break;
                  case 'PhoneNumber':
                      result.phoneNumber = String(item.Value); break;
                  case 'Amount':
                      result.amount = Number(item.Value); break;
              }
          }
      }
      return result;
  }
  \<close>
  \<open>switch_item\<close> is the body of the loop; \<open>z\<close> is the host's zone, in which
  \<open>parseSafaricomDate\<close> reads the transaction date.
\<close>

definition switch_item :: "zone \<Rightarrow> StkCallbackResult \<Rightarrow> StkCallbackItem \<Rightarrow> StkCallbackResult" where
  "switch_item z result item =
     (if Name item = ''MpesaReceiptNumber''
        then result\<lparr>mpesaReceiptNumber := Some (String_of_value (Value item))\<rparr>
      else if Name item = ''TransactionDate''
        then result\<lparr>transactionDate := Some (parseSafaricomDate z (Value item))\<rparr>
      else if Name item = ''PhoneNumber''
        then result\<lparr>phoneNumber := Some (String_of_value (Value item))\<rparr>
      else if Name item = ''Amount''
        then result\<lparr>amount := Some (Number_of_value (Value item))\<rparr>
      else result)"

definition parseStkCallback :: "zone \<Rightarrow> StkCallbackData \<Rightarrow> StkCallbackResult" where
  "parseStkCallback z b =
     (let callback = stkCallback (Body b);
          result = \<lparr>success = (ResultCode callback = 0),
                    resultCode = ResultCode callback,
                    resultDesc = ResultDesc callback,
                    merchantRequestId = MerchantRequestID callback,
                    checkoutRequestId = CheckoutRequestID callback,
                    mpesaReceiptNumber = None,
                    transactionDate = None,
                    phoneNumber = None,
                    amount = None\<rparr>
      in if ResultCode callback = 0
         then (case CallbackMetadata callback of
                 None \<Rightarrow> result
               | Some items \<Rightarrow> foldl (switch_item z) result items)
         else result)"

subsection \<open>createStkCallbackHandler\<close>

text \<open>
  \<^verbatim>\<open>
  export function createStkCallbackHandler(options: StkCallbackHandlerOptions) {
      return async (req: ExpressLikeRequest, res: ExpressLikeResponse) => {
          try {
              const result = parseStkCallback(req.body as StkCallbackData);
              await options.onResult(result);
              // Safaricom expects this exact response
              res.json({ ResultCode: 0, ResultDesc: 'Accepted' });
          } catch (error) {
              const err = error instanceof Error ? error : new Error(String(error));
              if (options.onError) {
                  await options.onError(err);
              }
              // Still return success to prevent Safaricom retries
              res.json({ ResultCode: 0, ResultDesc: 'Accepted' });
          }
      };
  }
  \<close>
  \<^verbatim>\<open>req.body\<close> has the type \<^verbatim>\<open>unknown\<close>: it either has the shape of \<^verbatim>\<open>StkCallbackData\<close>, or
  reading its nested fields throws a \<^verbatim>\<open>TypeError\<close> (with the given message). A user
  callback either completes (\<open>None\<close>) or throws a value: an error, or any other value,
  given by its \<^verbatim>\<open>String()\<close> form. The response object records its status code (which
  the handler never sets; Express starts it at 200) and the bodies passed to
  \<^verbatim>\<open>res.json\<close>.
\<close>

datatype request_body = WellFormed StkCallbackData | Malformed string

datatype thrown = ThrownError error | ThrownValue string

record StkCallbackHandlerOptions =
  onResult :: "StkCallbackResult \<Rightarrow> thrown option"
  onError :: "(error \<Rightarrow> thrown option) option"

record ExpressLikeResponse =
  statusCode :: nat
  sent :: "(string \<times> json_value) list list"

definition res_json :: "(string \<times> json_value) list \<Rightarrow> ExpressLikeResponse \<Rightarrow> ExpressLikeResponse" where
  "res_json data res = res\<lparr>sent := sent res @ [data]\<rparr>"

definition Accepted :: "(string \<times> json_value) list" where
  "Accepted = [(''ResultCode'', JNumber 0), (''ResultDesc'', JString ''Accepted'')]"

fun as_Error :: "thrown \<Rightarrow> error" where
  "as_Error (ThrownError e) = e"
| "as_Error (ThrownValue v) = Error ''Error'' v"

definition stk_try :: "zone \<Rightarrow> StkCallbackHandlerOptions \<Rightarrow> request_body \<Rightarrow> thrown option" where
  "stk_try z options b =
     (case b of
        Malformed msg \<Rightarrow> Some (ThrownError (Error ''TypeError'' msg))
      | WellFormed d \<Rightarrow> onResult options (parseStkCallback z d))"

definition createStkCallbackHandler ::
  "zone \<Rightarrow> StkCallbackHandlerOptions \<Rightarrow> request_body \<Rightarrow> ExpressLikeResponse
     \<Rightarrow> thrown option \<times> ExpressLikeResponse"
where
  "createStkCallbackHandler z options req_body res =
     (case stk_try z options req_body of
        None \<Rightarrow> (None, res_json Accepted res)
      | Some error \<Rightarrow>
          (case onError options of
             None \<Rightarrow> (None, res_json Accepted res)
           | Some handler \<Rightarrow>
               (case handler (as_Error error) of
                  None \<Rightarrow> (None, res_json Accepted res)
                | Some error' \<Rightarrow> (Some error', res))))"

section \<open>Scenarios\<close>

text \<open>
  The configuration of the repository's test suite (\<^verbatim>\<open>VALID_CONFIG\<close>), the client the
  constructor builds from it with a given retry count, and a world in which nothing has
  happened yet.
\<close>

definition VALID_CONFIG :: MpesaConfig where
  "VALID_CONFIG =
     \<lparr>consumerKey = ''test_key'', consumerSecret = ''test_secret'',
      businessShortCode = ''174379'', passKey = ''test_passkey'',
      environment = Some sandbox, callbackUrl = ''https://example.com/callback'',
      timeout = None, initiatorName = None, initiatorPassword = None,
      certificatePath = None, debug = None, retries = None\<rparr>"

definition test_client :: "int \<Rightarrow> Mpesa" where
  "test_client r =
     \<lparr>config = VALID_CONFIG\<lparr>retries := Some r\<rparr>, urls = URLS sandbox, timeout_ms = 30000,
      debug_on = False, maxRetries = r, accessToken = None, tokenExpiry = Num 0\<rparr>"

definition world0 :: world where
  "world0 = \<lparr>trace = [], fetches = 0, clock_reads = 0\<rparr>"

definition http_response :: "nat \<Rightarrow> string \<Rightarrow> 'a \<Rightarrow> string \<Rightarrow> 'a response" where
  "http_response s st j t = \<lparr>status = s, statusText = st, body_json = Inr j, body_text = Inr t\<rparr>"

text \<open>A network on which every call of \<^verbatim>\<open>fetch\<close> has the same outcome, and a clock that
  starts at \<open>t0\<close> and advances one millisecond per reading.\<close>

definition steady_env ::
  "(error + AccessTokenResponse response) \<Rightarrow> (error + api_data response) \<Rightarrow> int \<Rightarrow> env" where
  "steady_env a b t0 = \<lparr>auth_net = (\<lambda>k. a), api_net = (\<lambda>k. b), clock = (\<lambda>k. t0 + int k)\<rparr>"

definition token_response :: "AccessTokenResponse response" where
  "token_response =
     http_response 200 ''OK'' \<lparr>access_token = ''test_token'', expires_in = ''3599''\<rparr> []"

definition unauthorized :: "AccessTokenResponse response" where
  "unauthorized =
     \<lparr>status = 401, statusText = ''Unauthorized'',
      body_json = Inl (Error ''SyntaxError'' ''Unexpected token''),
      body_text = Inr ''Invalid credentials''\<rparr>"

definition unavailable :: "api_data response" where
  "unavailable =
     http_response 503 ''Service Unavailable'' (JObj [(''errorMessage'', JStr ''System busy'')]) []"

definition bad_request :: "api_data response" where
  "bad_request =
     http_response 400 ''Bad Request''
       (JObj [(''errorCode'', JStr ''400.002.02''),
              (''errorMessage'', JStr ''Bad Request - Invalid Amount'')]) []"

definition accepted :: "api_data response" where
  "accepted = http_response 200 ''OK'' (JObj [(''ResponseCode'', JStr ''0'')]) []"

text \<open>A 400 answer whose body is the JSON text \<^verbatim>\<open>null\<close>.\<close>

definition bad_request_null :: "api_data response" where
  "bad_request_null = http_response 400 ''Bad Request'' JNull ''null''"

text \<open>A network whose first business request is aborted by the timeout timer and whose
  second one is answered.\<close>

definition flaky_env :: env where
  "flaky_env =
     \<lparr>auth_net = (\<lambda>k. Inr token_response),
      api_net = (\<lambda>k. if k = 0 then Inl (Error ''AbortError'' ''This operation was aborted'')
                      else Inr accepted),
      clock = (\<lambda>k. int k)\<rparr>"

text \<open>
  A request that sets none of the optional fields, and a runtime with one readable
  certificate file whose encryption is a stand-in that only marks its input (real RSA
  encryption is not computed anywhere in this theory).
\<close>

definition plain_request :: initiator_request where
  "plain_request =
     \<lparr>requestInitiator = None, requestCredential = None, resultUrl = None,
      queueTimeoutUrl = None\<rparr>"

definition production_cer :: string where
  "production_cer = join_lines
     [''-----BEGIN CERTIFICATE-----'',
      ''c3RhbmQtaW4gY2VydGlmaWNhdGU='',
      ''-----END CERTIFICATE-----'']"

definition sealed :: node_runtime where
  "sealed =
     \<lparr>readFileSync = (\<lambda>path.
        if path = ''./certs/production.cer'' then Inr production_cer
        else Inl (Error ''Error'' (''ENOENT: no such file or directory, open '' @ path))),
      rsa_encrypt = (\<lambda>certificate data. Inr (''sealed:'' @ data)),
      decode_error = (\<lambda>certificate. Error ''Error'' ''error:04800064:PEM routines::bad base64 decode'')\<rparr>"

text \<open>
  Hosts: one in a zone without transitions (UTC, or \<^verbatim>\<open>Africa/Nairobi\<close> since 1942), one
  whose zone put its clocks forward from 02:00 to 03:00 on 10 March 2024, as
  \<^verbatim>\<open>America/New_York\<close> did, and one whose zone put its clocks forward from 00:00 to
  00:30 on 1 July 1928, as \<^verbatim>\<open>Africa/Nairobi\<close> did (the other transitions of these two
  zones are left out). The month is the month index.
\<close>

definition no_transitions :: zone where
  "no_transitions t = 0"

definition new_york_2024 :: zone where
  "new_york_2024 t =
     (case t of (y, m, d, h, mi, s) \<Rightarrow>
        if y = 2024 \<and> m = 2 \<and> d = 10 \<and> h = 2 then 3600 else 0)"

definition nairobi_1928 :: zone where
  "nairobi_1928 t =
     (case t of (y, m, d, h, mi, s) \<Rightarrow>
        if y = 1928 \<and> m = 6 \<and> d = 1 \<and> h = 0 \<and> mi < 30 then 1800 else 0)"

section \<open>Properties\<close>

subsection \<open>The constructor and the signer\<close>

lemma new_Mpesa_test_client:
  "new_Mpesa (VALID_CONFIG\<lparr>retries := Some r\<rparr>) = Inr (test_client r)"
  by (simp add: new_Mpesa_def VALID_CONFIG_def test_client_def number_or_def)

lemma new_Mpesa_requires_consumerKey:
  "new_Mpesa (VALID_CONFIG\<lparr>consumerKey := []\<rparr>) =
     Inl (MpesaValidationError ''consumerKey is required'' (Some ''consumerKey''))"
  by (simp add: new_Mpesa_def required_def)

lemma generateTimestamp_example:
  "generateTimestamp (Local 2026 1 25 14 30 45) = ''20260225143045''"
  by (simp add: generateTimestamp_def padStart_def show_int_def show_nat.simps digit_char_def)

lemma generatePassword_example:
  "generatePassword ''174379'' ''bfb279f9'' ''20260225143045'' =
     base64 ''174379bfb279f920260225143045''"
  by (simp add: generatePassword_def)

subsection \<open>Phone numbers\<close>

lemma formatPhoneNumber_rejects:
  "length (country_code_normalize (filter is_digit phone)) \<noteq> 12 \<Longrightarrow>
   formatPhoneNumber phone =
     Inl (Error ''Error''
       (invalid_phone_message phone (country_code_normalize (filter is_digit phone))))"
  by (simp add: formatPhoneNumber_def)

lemma formatPhoneNumber_never_ValidationError:
  "formatPhoneNumber phone = Inl e \<Longrightarrow> \<not> is_ValidationError e"
  by (auto simp: formatPhoneNumber_def Let_def split: if_splits)

text \<open>
  Claim C4. Every input whose digit count after cleaning and country-code normalisation
  is not 12 is rejected, and the message names the original input and the observed digit
  count (lemma \<open>formatPhoneNumber_rejects\<close>). The README documents a bad phone number as a
  \<^verbatim>\<open>MpesaValidationError\<close>, but the function throws a plain \<^verbatim>\<open>Error\<close>: on \<^verbatim>\<open>"071234"\<close>
  and on \<^verbatim>\<open>""\<close> the thrown value is not a validation error.
\<close>

theorem formatPhoneNumber_short_inputs_throw_plain_Error:
  "formatPhoneNumber ''071234'' =
     Inl (Error ''Error'' (''Invalid phone number '' @ [CHR 0x22] @ ''071234'' @ [CHR 0x22] @
            '': expected 12 digits after formatting, got 8 (25471234)''))
   \<and> formatPhoneNumber '''' =
     Inl (Error ''Error'' (''Invalid phone number '' @ [CHR 0x22] @ [CHR 0x22] @
            '': expected 12 digits after formatting, got 3 (254)''))
   \<and> \<not> (\<exists>m f. formatPhoneNumber ''071234'' = Inl (MpesaValidationError m f))
   \<and> \<not> (\<exists>m f. formatPhoneNumber '''' = Inl (MpesaValidationError m f))"
  by (simp add: formatPhoneNumber_def country_code_normalize_def invalid_phone_message_def
      is_digit_def startsWith_def show_nat.simps digit_char_def)

lemma country_code_normalize_trunk:
  "country_code_normalize (CHR ''0'' # X) = ''254'' @ X"
  by (simp add: country_code_normalize_def startsWith_def)

lemma country_code_normalize_country:
  "country_code_normalize (''254'' @ X) = ''254'' @ X"
  by (simp add: country_code_normalize_def startsWith_def)

lemma country_code_normalize_bare:
  "\<not> startsWith X ''0'' \<Longrightarrow> \<not> startsWith X ''254'' \<Longrightarrow>
   country_code_normalize X = ''254'' @ X"
  by (simp add: country_code_normalize_def)

lemma formatPhoneNumber_accepts:
  "length (country_code_normalize (filter is_digit phone)) = 12 \<Longrightarrow>
   formatPhoneNumber phone = Inr (country_code_normalize (filter is_digit phone))"
  by (simp add: formatPhoneNumber_def)

text \<open>
  Claim C5. Let \<open>X\<close> be a nine-digit subscriber number. Whatever spaces, dashes,
  parentheses or other non-digit characters the input contains, if its digits are
  \<open>0X\<close> (leading trunk prefix), \<open>254X\<close> (which covers both \<^verbatim>\<open>+254\<close> and a bare
  \<^verbatim>\<open>254\<close>) or \<open>X\<close> alone, the result is the one canonical form \<open>254X\<close>. For the bare
  form the subscriber number must not itself begin with \<open>0\<close> or \<open>254\<close>; Kenyan
  subscriber numbers begin with 7 or 1.
\<close>

theorem formatPhoneNumber_canonical:
  assumes "length X = 9" and "list_all is_digit X"
    and "filter is_digit phone = ''0'' @ X \<or> filter is_digit phone = ''254'' @ X \<or>
         (filter is_digit phone = X \<and> \<not> startsWith X ''0'' \<and> \<not> startsWith X ''254'')"
  shows "formatPhoneNumber phone = Inr (''254'' @ X)"
proof -
  have "country_code_normalize (filter is_digit phone) = ''254'' @ X"
    using assms(3) country_code_normalize_trunk [of X] country_code_normalize_country [of X]
      country_code_normalize_bare [of X]
    by auto
  moreover from this assms(1)
  have "length (country_code_normalize (filter is_digit phone)) = 12"
    by simp
  ultimately show ?thesis
    using formatPhoneNumber_accepts [of phone] by simp
qed

theorem formatPhoneNumber_canonical_witness:
  "formatPhoneNumber ''0712 345 678'' = Inr ''254712345678''
   \<and> formatPhoneNumber ''+254 (712) 345-678'' = Inr ''254712345678''
   \<and> formatPhoneNumber ''254712345678'' = Inr ''254712345678''
   \<and> formatPhoneNumber ''712-345-678'' = Inr ''254712345678''"
proof -
  have X: "length ''712345678'' = 9" "list_all is_digit ''712345678''"
    by (simp_all add: is_digit_def)
  have a: "formatPhoneNumber ''0712 345 678'' = Inr (''254'' @ ''712345678'')"
    by (rule formatPhoneNumber_canonical [OF X]) (simp add: is_digit_def)
  have b: "formatPhoneNumber ''+254 (712) 345-678'' = Inr (''254'' @ ''712345678'')"
    by (rule formatPhoneNumber_canonical [OF X]) (simp add: is_digit_def)
  have c: "formatPhoneNumber ''254712345678'' = Inr (''254'' @ ''712345678'')"
    by (rule formatPhoneNumber_canonical [OF X]) (simp add: is_digit_def)
  have d: "formatPhoneNumber ''712-345-678'' = Inr (''254'' @ ''712345678'')"
    by (rule formatPhoneNumber_canonical [OF X]) (simp add: is_digit_def startsWith_def)
  from a b c d show ?thesis by simp
qed

subsection \<open>The token cache\<close>

lemma cached_token_fresh:
  "token_fresh e this w \<Longrightarrow>
   cached_token e this w = (accessToken this, w\<lparr>clock_reads := Suc (clock_reads w)\<rparr>)"
  by (auto simp: token_fresh_def cached_token_def Date_now_def split: option.splits)

lemma cached_token_stale:
  "\<not> token_fresh e this w \<Longrightarrow>
   \<exists>w1. cached_token e this w = (None, w1) \<and> trace w1 = trace w \<and> fetches w1 = fetches w"
  by (auto simp: token_fresh_def cached_token_def Date_now_def split: option.splits)

lemma getAccessToken_cached:
  assumes "token_fresh e this w" and "accessToken this = Some t"
  shows "getAccessToken e this w = (Inr t, this, w\<lparr>clock_reads := Suc (clock_reads w)\<rparr>)"
  using assms cached_token_fresh [OF assms(1)]
  by (simp add: getAccessToken_def)

lemma getAccessToken_one_exchange:
  assumes "\<not> token_fresh e this w"
  shows "trace (snd (snd (getAccessToken e this w))) = trace w @ [Fetch (auth_request this)]
       \<and> fetches (snd (snd (getAccessToken e this w))) = Suc (fetches w)"
proof -
  from cached_token_stale [OF assms] obtain w1 where
    w1: "cached_token e this w = (None, w1)" "trace w1 = trace w" "fetches w1 = fetches w"
    by blast
  show ?thesis
    by (simp add: getAccessToken_def w1 fetchWithTimeout_def Let_def Date_now_def
        split: sum.splits prod.splits)
qed

lemma getAccessToken_success:
  assumes "\<not> token_fresh e this w"
    and "auth_net e (fetches w) = Inr r" and "ok r" and "body_json r = Inr data"
    and "parseInt (expires_in data) = Num n"
    and "getAccessToken e this w = (res, this', w')"
  shows "res = Inr (access_token data) \<and> accessToken this' = Some (access_token data)
       \<and> tokenExpiry this' = Num (clock e (clock_reads w' - 1) + n * 1000 - 60000)"
proof -
  from cached_token_stale [OF assms(1)] obtain w1 where
    w1: "cached_token e this w = (None, w1)" "trace w1 = trace w" "fetches w1 = fetches w"
    by blast
  show ?thesis
    using assms(2-6)
    by (auto simp add: getAccessToken_def w1 fetchWithTimeout_def settle_def Let_def Date_now_def
        split: sum.splits prod.splits)
qed

lemma getAccessToken_failure:
  assumes "\<not> token_fresh e this w"
    and "auth_net e (fetches w) = Inr r" and "\<not> ok r"
  shows "getAccessToken e this w =
           (Inl (auth_failed r), this,
            (snd (cached_token e this w))\<lparr>trace := trace w @ [Fetch (auth_request this)],
                                          fetches := Suc (fetches w)\<rparr>)"
proof -
  from cached_token_stale [OF assms(1)] obtain w1 where
    w1: "cached_token e this w = (None, w1)" "trace w1 = trace w" "fetches w1 = fetches w"
    by blast
  show ?thesis
    using assms(2,3)
    by (simp add: getAccessToken_def w1 fetchWithTimeout_def settle_def)
qed

text \<open>
  Claim C3. (1) When a (non-empty) token is stored and the clock reads a time before the
  stored expiry, \<open>getAccessToken\<close> returns the stored token, leaves the client unchanged
  and issues no request: the world only records one more reading of the clock.
  (2) Otherwise it issues exactly one request, the credential exchange, whatever its
  outcome; when the answer is a 2xx response whose body parses and reports a lifetime
  of \<open>n\<close> seconds, the token is stored and the expiry is the clock's value at that moment
  (the last reading, \<open>clock_reads w' - 1\<close>) plus \<open>n * 1000\<close> minus \<open>60000\<close> milliseconds.
  (3) A second call made while that token is fresh returns it again, so the two calls
  together have issued exactly one request.
\<close>

theorem getAccessToken_cache_policy:
  "(token_fresh e this w \<and> accessToken this = Some t \<longrightarrow>
      getAccessToken e this w = (Inr t, this, w\<lparr>clock_reads := Suc (clock_reads w)\<rparr>))
   \<and> (\<not> token_fresh e this w \<longrightarrow>
        (case getAccessToken e this w of (res, this', w') \<Rightarrow>
           trace w' = trace w @ [Fetch (auth_request this)] \<and> fetches w' = Suc (fetches w)
           \<and> (\<forall>r data n.
                 auth_net e (fetches w) = Inr r \<and> ok r \<and> body_json r = Inr data \<and>
                 parseInt (expires_in data) = Num n \<longrightarrow>
                   res = Inr (access_token data) \<and> accessToken this' = Some (access_token data) \<and>
                   tokenExpiry this' = Num (clock e (clock_reads w' - 1) + n * 1000 - 60000))
           \<and> (\<forall>t'. token_fresh e this' w' \<and> accessToken this' = Some t' \<longrightarrow>
                 (case getAccessToken e this' w' of (res2, this2, w2) \<Rightarrow>
                    res2 = Inr t' \<and> this2 = this' \<and>
                    trace w2 = trace w @ [Fetch (auth_request this)] \<and>
                    fetches w2 = Suc (fetches w)))))"
proof (intro conjI impI)
  assume "token_fresh e this w \<and> accessToken this = Some t"
  then show "getAccessToken e this w = (Inr t, this, w\<lparr>clock_reads := Suc (clock_reads w)\<rparr>)"
    using getAccessToken_cached by blast
next
  assume stale: "\<not> token_fresh e this w"
  obtain res this' w' where g: "getAccessToken e this w = (res, this', w')"
    by (cases "getAccessToken e this w") auto
  have one: "trace w' = trace w @ [Fetch (auth_request this)]" "fetches w' = Suc (fetches w)"
    using getAccessToken_one_exchange [OF stale] by (simp_all add: g)
  have expiry: "res = Inr (access_token data) \<and> accessToken this' = Some (access_token data) \<and>
      tokenExpiry this' = Num (clock e (clock_reads w' - 1) + n * 1000 - 60000)"
    if "auth_net e (fetches w) = Inr r \<and> ok r \<and> body_json r = Inr data \<and>
        parseInt (expires_in data) = Num n" for r data n
    using getAccessToken_success [OF stale _ _ _ _ g] that by blast
  have again: "case getAccessToken e this' w' of (res2, this2, w2) \<Rightarrow>
      res2 = Inr t' \<and> this2 = this' \<and> trace w2 = trace w @ [Fetch (auth_request this)] \<and>
      fetches w2 = Suc (fetches w)"
    if "token_fresh e this' w' \<and> accessToken this' = Some t'" for t'
    using getAccessToken_cached [of e this' w' t'] that by (simp add: one)
  show "case getAccessToken e this w of (res, this', w') \<Rightarrow>
      trace w' = trace w @ [Fetch (auth_request this)] \<and> fetches w' = Suc (fetches w)
      \<and> (\<forall>r data n.
            auth_net e (fetches w) = Inr r \<and> ok r \<and> body_json r = Inr data \<and>
            parseInt (expires_in data) = Num n \<longrightarrow>
              res = Inr (access_token data) \<and> accessToken this' = Some (access_token data) \<and>
              tokenExpiry this' = Num (clock e (clock_reads w' - 1) + n * 1000 - 60000))
      \<and> (\<forall>t'. token_fresh e this' w' \<and> accessToken this' = Some t' \<longrightarrow>
            (case getAccessToken e this' w' of (res2, this2, w2) \<Rightarrow>
               res2 = Inr t' \<and> this2 = this' \<and>
               trace w2 = trace w @ [Fetch (auth_request this)] \<and>
               fetches w2 = Suc (fetches w)))"
    unfolding g using one expiry again by simp blast
qed

theorem getAccessToken_cache_policy_witness:
  "\<not> token_fresh (steady_env (Inr token_response) (Inr accepted) 1000000) (test_client 0) world0
   \<and> ok token_response
   \<and> parseInt (expires_in \<lparr>access_token = ''test_token'', expires_in = ''3599''\<rparr>) = Num 3599
   \<and> (case getAccessToken (steady_env (Inr token_response) (Inr accepted) 1000000)
              (test_client 0) world0 of
         (res, this', w') \<Rightarrow>
           res = Inr ''test_token'' \<and> accessToken this' = Some ''test_token'' \<and>
           tokenExpiry this' = Num (1000000 + 3599 * 1000 - 60000) \<and>
           trace w' = [Fetch (auth_request (test_client 0))] \<and> fetches w' = 1 \<and>
           token_fresh (steady_env (Inr token_response) (Inr accepted) 1000000) this' w' \<and>
           (case getAccessToken (steady_env (Inr token_response) (Inr accepted) 1000000) this' w' of
              (res2, this2, w2) \<Rightarrow>
                res2 = Inr ''test_token'' \<and> this2 = this' \<and>
                trace w2 = [Fetch (auth_request (test_client 0))] \<and> fetches w2 = 1))"
proof -
  let ?e = "steady_env (Inr token_response) (Inr accepted) 1000000"
  let ?c = "test_client 0"
  let ?c' = "?c\<lparr>accessToken := Some ''test_token'', tokenExpiry := Num 4539000\<rparr>"
  let ?w' = "\<lparr>trace = [Fetch (auth_request ?c)], fetches = Suc 0, clock_reads = Suc 0\<rparr>"
  have w0: "trace world0 = []" "fetches world0 = 0" "clock_reads world0 = 0"
    by (simp_all add: world0_def)
  have stale: "\<not> token_fresh ?e ?c world0"
    by (simp add: token_fresh_def test_client_def)
  have okr: "ok token_response"
    by (simp add: ok_def token_response_def http_response_def)
  have life: "parseInt (expires_in \<lparr>access_token = ''test_token'', expires_in = ''3599''\<rparr>) = Num 3599"
    by (simp add: parseInt_def is_space_def startsWith_def is_digit_def digits_value_def
        digit_val_def)
  have net: "auth_net ?e (fetches world0) = Inr token_response"
    by (simp add: steady_env_def)
  have json: "body_json token_response = Inr \<lparr>access_token = ''test_token'', expires_in = ''3599''\<rparr>"
    by (simp add: token_response_def http_response_def)
  have g: "getAccessToken ?e ?c world0 = (Inr ''test_token'', ?c', ?w')"
    using life
    by (simp add: getAccessToken_def cached_token_def fetchWithTimeout_def settle_def
        Date_now_def steady_env_def test_client_def w0 token_response_def
        http_response_def ok_def)
  have fresh: "token_fresh ?e ?c' ?w'"
    by (simp add: token_fresh_def steady_env_def)
  have g2: "getAccessToken ?e ?c' ?w' = (Inr ''test_token'', ?c', ?w'\<lparr>clock_reads := Suc (Suc 0)\<rparr>)"
    by (simp add: getAccessToken_def cached_token_def Date_now_def steady_env_def)
  note policy = getAccessToken_cache_policy [of ?e ?c world0 "''test_token''",
      THEN conjunct2, THEN mp, OF stale]
  from policy stale okr life fresh show ?thesis
    by (simp add: g g2 w0)
qed

text \<open>
  Claim C6. When the credential exchange takes place (no fresh token is stored) and its
  answer is not a 2xx response, \<open>getAccessToken\<close> throws an \<^verbatim>\<open>MpesaAuthError\<close> carrying
  the HTTP status and the raw body text (the empty string when the body cannot be
  read); the client, with its stored token and expiry, is returned unchanged; and the
  world records exactly one request: nothing is retried.
\<close>

theorem getAccessToken_non_2xx:
  assumes "\<not> token_fresh e this w" and "auth_net e (fetches w) = Inr r" and "\<not> ok r"
  shows "case getAccessToken e this w of (res, this', w') \<Rightarrow>
           res = Inl (MpesaAuthError
                   (''Authentication failed: '' @ show_nat (status r) @ '' '' @ statusText r)
                   (Some (status r))
                   (Text (case body_text r of Inl x \<Rightarrow> [] | Inr b \<Rightarrow> b)))
           \<and> this' = this
           \<and> trace w' = trace w @ [Fetch (auth_request this)] \<and> fetches w' = Suc (fetches w)"
  using getAccessToken_failure [OF assms] by (simp add: auth_failed_def)

theorem getAccessToken_non_2xx_witness:
  "\<not> token_fresh (steady_env (Inr unauthorized) (Inr accepted) 0) (test_client 0) world0
   \<and> \<not> ok unauthorized
   \<and> getAccessToken (steady_env (Inr unauthorized) (Inr accepted) 0) (test_client 0) world0 =
       (Inl (MpesaAuthError ''Authentication failed: 401 Unauthorized'' (Some 401)
               (Text ''Invalid credentials'')),
        test_client 0,
        \<lparr>trace = [Fetch (auth_request (test_client 0))], fetches = 1, clock_reads = 0\<rparr>)"
proof -
  let ?e = "steady_env (Inr unauthorized) (Inr accepted) 0"
  have stale: "\<not> token_fresh ?e (test_client 0) world0"
    by (simp add: token_fresh_def test_client_def)
  have net: "auth_net ?e (fetches world0) = Inr unauthorized"
    by (simp add: steady_env_def)
  have bad: "\<not> ok unauthorized"
    by (simp add: ok_def unauthorized_def)
  have reads: "clock_reads (snd (snd (getAccessToken ?e (test_client 0) world0))) = 0"
    by (simp add: getAccessToken_def cached_token_def fetchWithTimeout_def settle_def
        steady_env_def test_client_def world0_def unauthorized_def ok_def)
  have "show_nat 401 = ''401''"
    by (simp add: show_nat.simps digit_char_def)
  with getAccessToken_non_2xx [OF stale net bad] reads stale bad show ?thesis
    by (cases "getAccessToken ?e (test_client 0) world0")
      (auto simp: unauthorized_def world0_def)
qed

subsection \<open>The dispatcher\<close>

lemma attempts_0:
  "attempts req a 0 = (if 0 < a then [Sleep (backoff_delay a)] else []) @ [Fetch req]"
  by (simp add: attempts_def)

lemma attempts_Suc:
  "attempts req a (Suc n) =
     ((if 0 < a then [Sleep (backoff_delay a)] else []) @ [Fetch req]) @ attempts req (a + 1) n"
proof -
  have "[0..<Suc (Suc n)] = 0 # [Suc 0..<Suc (Suc n)]"
    by (rule upt_conv_Cons) simp
  also have "[Suc 0..<Suc (Suc n)] = map Suc [0..<Suc n]"
    by (rule map_Suc_upt [symmetric])
  finally have l: "[0..<Suc (Suc n)] = 0 # map Suc [0..<Suc n]" .
  have eq: "a + int (Suc k) = a + 1 + int k" for k by simp
  show ?thesis
    unfolding attempts_def l by (simp add: comp_def eq del: upt_Suc of_nat_Suc cong: if_cong)
qed

lemma attempts_from_0:
  "attempts req 0 n =
     concat (map (\<lambda>k. (if 0 < k then [Sleep (min (1000 * 2 ^ (k - 1)) 10000)] else []) @
                       [Fetch req])
       [0..<Suc n])"
proof -
  have "backoff_delay (int k) = min (1000 * 2 ^ (k - 1)) 10000" for k
    by (simp add: backoff_delay_def nat_diff_distrib')
  then show ?thesis
    unfolding attempts_def by (simp cong: if_cong del: upt_Suc)
qed

text \<open>
  The loop, run from attempt \<open>a\<close>: while the loop body says \<open>Continue\<close> the next attempt is
  made, and the first \<open>Throw\<close> ends the call with that error.
\<close>

lemma apiRequest_loop_throw:
  assumes "a + int n \<le> maxRetries this"
    and "\<And>k. k < n \<Longrightarrow>
           try_block this (a + int k) (settle this (api_net e (fetches w + k))) = Continue (errs k)"
    and "try_block this (a + int n) (settle this (api_net e (fetches w + n))) = Throw x"
  shows "apiRequest_loop e this req a le w =
           (Inl x, w\<lparr>trace := trace w @ attempts req a n, fetches := fetches w + Suc n\<rparr>)"
  using assms
proof (induction n arbitrary: a le w errs)
  case 0
  then show ?case
    by (simp add: apiRequest_loop.simps [of e this req a] fetchWithTimeout_def sleep_def attempts_0)
next
  case (Suc n)
  let ?w1 = "if a > 0 then sleep (backoff_delay a) w else w"
  let ?w2 = "?w1\<lparr>trace := trace ?w1 @ [Fetch req], fetches := Suc (fetches ?w1)\<rparr>"
  have f: "fetches ?w2 = Suc (fetches w)" by (simp add: sleep_def)
  have first: "try_block this a (settle this (api_net e (fetches w))) = Continue (errs 0)"
    using Suc.prems(2) [of 0] by simp
  have step: "apiRequest_loop e this req a le w =
              apiRequest_loop e this req (a + 1) (Some (errs 0)) ?w2"
    using Suc.prems(1) first
    by (simp add: apiRequest_loop.simps [of e this req a] fetchWithTimeout_def sleep_def)
  have "apiRequest_loop e this req (a + 1) (Some (errs 0)) ?w2 =
          (Inl x, ?w2\<lparr>trace := trace ?w2 @ attempts req (a + 1) n,
                        fetches := fetches ?w2 + Suc n\<rparr>)"
  proof (rule Suc.IH [where errs = "\<lambda>k. errs (Suc k)"])
    show "a + 1 + int n \<le> maxRetries this" using Suc.prems(1) by simp
    show "try_block this (a + 1 + int k) (settle this (api_net e (fetches ?w2 + k))) =
          Continue (errs (Suc k))" if "k < n" for k
      using Suc.prems(2) [of "Suc k"] that by (simp add: f add.commute add.left_commute)
    show "try_block this (a + 1 + int n) (settle this (api_net e (fetches ?w2 + n))) = Throw x"
      using Suc.prems(3) by (simp add: f add.commute add.left_commute)
  qed
  then show ?case
    by (simp add: step attempts_Suc sleep_def)
qed

lemma client_error_api_error:
  "client_error (api_error r) = (status r \<noteq> 0 \<and> status r < 500)"
  by (simp add: api_error_def Let_def)

lemma build_api_error_not_null:
  "body_json r \<noteq> Inr JNull \<Longrightarrow> build_api_error r = Inr (api_error r)"
  by (auto simp: build_api_error_def response_data_def split: sum.splits)

lemma build_api_error_null:
  "body_json r = Inr JNull \<Longrightarrow> build_api_error r = Inl (null_property_error ''errorMessage'')"
  by (simp add: build_api_error_def response_data_def)

lemma try_block_5xx_retry:
  "500 \<le> status r \<Longrightarrow> attempt < maxRetries this \<Longrightarrow> body_json r \<noteq> Inr JNull \<Longrightarrow>
   try_block this attempt (settle this (Inr r)) = Continue (api_error r)"
  by (simp add: try_block_def settle_def ok_def build_api_error_not_null)

lemma try_block_5xx_exhausted:
  "500 \<le> status r \<Longrightarrow> maxRetries this \<le> attempt \<Longrightarrow> body_json r \<noteq> Inr JNull \<Longrightarrow>
   try_block this attempt (settle this (Inr r)) = Throw (api_error r)"
  by (simp add: try_block_def settle_def ok_def catch_block_def client_error_api_error
      build_api_error_not_null)

lemma try_block_4xx:
  "400 \<le> status r \<Longrightarrow> status r \<le> 499 \<Longrightarrow> body_json r \<noteq> Inr JNull \<Longrightarrow>
   try_block this attempt (settle this (Inr r)) = Throw (api_error r)"
  by (simp add: try_block_def settle_def ok_def catch_block_def client_error_api_error
      build_api_error_not_null)

text \<open>
  An answer that is not a success and whose body is the JSON text \<^verbatim>\<open>null\<close>: the
  \<^verbatim>\<open>TypeError\<close> thrown while the error is built is caught by the \<^verbatim>\<open>catch\<close> block, which,
  seeing no \<^verbatim>\<open>MpesaApiError\<close>, retries while attempts remain, whatever the status.
\<close>

lemma try_block_null_body:
  "\<not> ok r \<Longrightarrow> body_json r = Inr JNull \<Longrightarrow>
   try_block this attempt (settle this (Inr r)) =
     (if maxRetries this \<le> attempt then Throw (null_property_error ''errorMessage'')
      else Continue (null_property_error ''errorMessage''))"
  by (simp add: try_block_def settle_def catch_block_def build_api_error_null
      null_property_error_def)

text \<open>
  The retry policy for answers whose body is not the JSON text \<^verbatim>\<open>null\<close> (an object, any
  other JSON value, or a body that does not parse). Let the first \<open>n\<close> attempts of a
  request be answered with a status of 500 or more, where \<open>n\<close> is at most the configured
  \<open>maxRetries\<close>, and let attempt \<open>n\<close> be answered either with a status of 500 or more
  when \<open>n = maxRetries\<close> (every attempt failed), or with a status from 400 to 499. Then
  \<open>apiRequest\<close> throws the \<^verbatim>\<open>MpesaApiError\<close> built from that last response, and the world
  records exactly the attempts \<open>0, \<dots>, n\<close>: one request each, every retry \<open>k \<ge> 1\<close>
  preceded by a wait of \<open>min (1000 * 2^(k-1)) 10000\<close> milliseconds. So persistent 5xx
  answers give exactly \<open>maxRetries\<close> retries after the first attempt, and a 4xx answer
  ends the call at once.
\<close>

lemma apiRequest_retry_policy:
  assumes "int n \<le> maxRetries this"
    and "\<forall>k\<le>n. api_net e (fetches w + k) = Inr (rs k)"
    and "\<forall>k\<le>n. body_json (rs k) \<noteq> Inr JNull"
    and "\<forall>k<n. 500 \<le> status (rs k)"
    and "(int n = maxRetries this \<and> 500 \<le> status (rs n)) \<or>
         (400 \<le> status (rs n) \<and> status (rs n) \<le> 499)"
  shows "apiRequest e this path b token w =
           (Inl (api_error (rs n)),
            w\<lparr>trace := trace w @
                 concat (map (\<lambda>k. (if 0 < k then [Sleep (min (1000 * 2 ^ (k - 1)) 10000)] else []) @
                                   [Fetch (api_request (api (urls this) @ path) b token)])
                   [0..<Suc n]),
               fetches := fetches w + Suc n\<rparr>)"
proof -
  have retry: "try_block this (0 + int k) (settle this (api_net e (fetches w + k))) =
               Continue (api_error (rs k))" if "k < n" for k
    using that assms(1-4) by (simp add: try_block_5xx_retry)
  have last: "try_block this (0 + int n) (settle this (api_net e (fetches w + n))) =
              Throw (api_error (rs n))"
    using assms(2,3,5) by (auto simp: try_block_5xx_exhausted try_block_4xx)
  show ?thesis
    unfolding apiRequest_def
    using apiRequest_loop_throw [of 0 n this e w "\<lambda>k. api_error (rs k)", OF _ retry last] assms(1)
    by (simp add: attempts_from_0)
qed

lemma apiRequest_retry_policy_witness:
  "apiRequest (steady_env (Inr token_response) (Inr unavailable) 0) (test_client 2)
       ''/mpesa/stkpush/v1/processrequest'' [] ''test_token'' world0 =
     (Inl (MpesaApiError ''System busy'' (Some 503)
             (Data (JObj [(''errorMessage'', JStr ''System busy'')])) None),
      \<lparr>trace =
         [Fetch (api_request (api (urls (test_client 2)) @ ''/mpesa/stkpush/v1/processrequest'')
                   [] ''test_token''),
          Sleep 1000,
          Fetch (api_request (api (urls (test_client 2)) @ ''/mpesa/stkpush/v1/processrequest'')
                   [] ''test_token''),
          Sleep 2000,
          Fetch (api_request (api (urls (test_client 2)) @ ''/mpesa/stkpush/v1/processrequest'')
                   [] ''test_token'')],
       fetches = 3, clock_reads = 0\<rparr>)
   \<and> apiRequest (steady_env (Inr token_response) (Inr bad_request) 0) (test_client 2)
       ''/mpesa/stkpush/v1/processrequest'' [] ''test_token'' world0 =
     (Inl (MpesaApiError ''Bad Request - Invalid Amount'' (Some 400)
             (Data (JObj [(''errorCode'', JStr ''400.002.02''),
                          (''errorMessage'', JStr ''Bad Request - Invalid Amount'')]))
             (Some (JStr ''400.002.02''))),
      \<lparr>trace =
         [Fetch (api_request (api (urls (test_client 2)) @ ''/mpesa/stkpush/v1/processrequest'')
                   [] ''test_token'')],
       fetches = 1, clock_reads = 0\<rparr>)"
proof -
  let ?busy = "steady_env (Inr token_response) (Inr unavailable) 0"
  let ?bad = "steady_env (Inr token_response) (Inr bad_request) 0"
  have retries: "int 2 \<le> maxRetries (test_client 2)" "int 0 \<le> maxRetries (test_client 2)"
    by (simp_all add: test_client_def)
  have busy: "\<forall>k\<le>2. api_net ?busy (fetches world0 + k) = Inr unavailable"
    by (simp add: steady_env_def)
  have busy_body: "\<forall>k\<le>(2::nat). body_json unavailable \<noteq> Inr JNull"
    by (simp add: unavailable_def http_response_def)
  have busy_5xx: "\<forall>k<2. 500 \<le> status unavailable"
    "(int 2 = maxRetries (test_client 2) \<and> 500 \<le> status unavailable) \<or>
     (400 \<le> status unavailable \<and> status unavailable \<le> 499)"
    by (simp_all add: unavailable_def http_response_def test_client_def)
  have bad: "\<forall>k\<le>0. api_net ?bad (fetches world0 + k) = Inr bad_request"
    by (simp add: steady_env_def)
  have bad_body: "\<forall>k\<le>(0::nat). body_json bad_request \<noteq> Inr JNull"
    by (simp add: bad_request_def http_response_def)
  have bad_4xx: "\<forall>k<(0::nat). 500 \<le> status bad_request"
    "(int 0 = maxRetries (test_client 2) \<and> 500 \<le> status bad_request) \<or>
     (400 \<le> status bad_request \<and> status bad_request \<le> 499)"
    by (simp_all add: bad_request_def http_response_def)
  have errors:
    "api_error unavailable =
       MpesaApiError ''System busy'' (Some 503)
         (Data (JObj [(''errorMessage'', JStr ''System busy'')])) None"
    "api_error bad_request =
       MpesaApiError ''Bad Request - Invalid Amount'' (Some 400)
         (Data (JObj [(''errorCode'', JStr ''400.002.02''),
                      (''errorMessage'', JStr ''Bad Request - Invalid Amount'')]))
         (Some (JStr ''400.002.02''))"
    by (simp_all add: api_error_def response_data_def unavailable_def bad_request_def
        http_response_def json_or_def)
  have upts: "[0..<3] = [0, 1, 2]"
    by (simp add: upt_rec)
  from apiRequest_retry_policy [of 2 "test_client 2" ?busy world0 "\<lambda>k. unavailable",
      OF retries(1) busy busy_body busy_5xx]
    apiRequest_retry_policy [of 0 "test_client 2" ?bad world0 "\<lambda>k. bad_request",
      OF retries(2) bad bad_body bad_4xx]
  show ?thesis
    by (simp add: errors upts world0_def)
qed

text \<open>
  Claim C1 holds for every answer whose body is not the JSON text \<^verbatim>\<open>null\<close>
  (\<open>apiRequest_retry_policy\<close>), but the code breaks it for a body that is: reading
  \<^verbatim>\<open>data.errorMessage\<close> throws a \<^verbatim>\<open>TypeError\<close> inside \<^verbatim>\<open>try\<close>, and the \<^verbatim>\<open>catch\<close> block,
  which is meant not to retry a client error (\<^verbatim>\<open>// Don't retry on client errors (4xx)\<close>),
  sees no \<^verbatim>\<open>MpesaApiError\<close> and retries. With one retry configured and a gateway that
  answers every request with status 400 and the body \<^verbatim>\<open>null\<close>, \<open>apiRequest\<close> sends the
  request, waits 1000 ms, sends it again, and then throws the \<^verbatim>\<open>TypeError\<close>, not an
  \<^verbatim>\<open>MpesaApiError\<close> with status 400.
\<close>

theorem apiRequest_retries_400_with_null_body:
  "apiRequest (steady_env (Inr token_response) (Inr bad_request_null) 0) (test_client 1)
       ''/mpesa/stkpush/v1/processrequest'' [] ''test_token'' world0 =
     (Inl (Error ''TypeError''
             (''Cannot read properties of null (reading '' @ [CHR 0x27] @ ''errorMessage'' @
              [CHR 0x27] @ '')'')),
      \<lparr>trace =
         [Fetch (api_request (api (urls (test_client 1)) @ ''/mpesa/stkpush/v1/processrequest'')
                   [] ''test_token''),
          Sleep 1000,
          Fetch (api_request (api (urls (test_client 1)) @ ''/mpesa/stkpush/v1/processrequest'')
                   [] ''test_token'')],
       fetches = 2, clock_reads = 0\<rparr>)"
proof -
  let ?e = "steady_env (Inr token_response) (Inr bad_request_null) 0"
  let ?x = "null_property_error ''errorMessage''"
  have null: "\<not> ok bad_request_null" "body_json bad_request_null = Inr JNull"
    by (simp_all add: bad_request_null_def http_response_def ok_def)
  have net: "api_net ?e k = Inr bad_request_null" for k
    by (simp add: steady_env_def)
  have retry: "try_block (test_client 1) (0 + int k) (settle (test_client 1) (api_net ?e (fetches world0 + k))) =
               Continue ?x" if "k < 1" for k
    using that unfolding net by (simp add: try_block_null_body [OF null] test_client_def)
  have last: "try_block (test_client 1) (0 + int 1) (settle (test_client 1) (api_net ?e (fetches world0 + 1))) =
              Throw ?x"
    unfolding net by (simp add: try_block_null_body [OF null] test_client_def)
  have upts: "[0..<2] = [0, 1]"
    by (simp add: upt_rec)
  show ?thesis
    unfolding apiRequest_def
    using apiRequest_loop_throw [of 0 1 "test_client 1" ?e world0 "\<lambda>k. ?x", OF _ retry last]
    by (simp add: attempts_from_0 upts world0_def test_client_def null_property_error_def)
qed

text \<open>
  Claim C2 does not hold. With one retry configured, a first request that is aborted
  by the timeout timer is not surfaced: the dispatcher waits 1000 ms, sends the
  request again, and returns the second answer.
\<close>

theorem apiRequest_timeout_is_retried:
  "apiRequest flaky_env (test_client 1) ''/mpesa/stkpushquery/v1/query'' [] ''test_token'' world0 =
     (Inr (JObj [(''ResponseCode'', JStr ''0'')]),
      \<lparr>trace =
         [Fetch (api_request (api (urls (test_client 1)) @ ''/mpesa/stkpushquery/v1/query'')
                   [] ''test_token''),
          Sleep 1000,
          Fetch (api_request (api (urls (test_client 1)) @ ''/mpesa/stkpushquery/v1/query'')
                   [] ''test_token'')],
       fetches = 2, clock_reads = 0\<rparr>)"
  by (simp add: apiRequest_def apiRequest_loop.simps fetchWithTimeout_def settle_def
      try_block_def catch_block_def timed_out_def flaky_env_def test_client_def world0_def
      accepted_def http_response_def ok_def response_data_def sleep_def backoff_delay_def)

lemma try_block_local_retry:
  "attempt < maxRetries this \<Longrightarrow>
   try_block this attempt (settle this (Inl (Error name msg))) =
     Continue (if name = ''AbortError'' then timed_out this else Error name msg)"
  by (simp add: try_block_def settle_def catch_block_def timed_out_def)

lemma try_block_local_exhausted:
  "maxRetries this \<le> attempt \<Longrightarrow>
   try_block this attempt (settle this (Inl (Error name msg))) =
     Throw (if name = ''AbortError'' then timed_out this else Error name msg)"
  by (simp add: try_block_def settle_def catch_block_def timed_out_def)

text \<open>
  Claim C2, amended. A local failure (the promise of \<^verbatim>\<open>fetch\<close> rejects with a plain
  error: an \<^verbatim>\<open>AbortError\<close> when the timeout fired, any other error otherwise) is retried
  like a 5xx answer. When every attempt fails locally, \<open>apiRequest\<close> makes all
  \<open>maxRetries + 1\<close> attempts, with the backoff delay before each retry, and then throws
  the last error: a timeout as an \<^verbatim>\<open>MpesaApiError\<close> without status code, any other error
  as it is. The error is surfaced at once, with no retry, exactly when \<open>maxRetries\<close> is 0.
\<close>

theorem apiRequest_local_failure_policy:
  assumes "int n = maxRetries this"
    and "\<forall>k\<le>n. api_net e (fetches w + k) = Inl (Error (names k) (msgs k))"
  shows "apiRequest e this path b token w =
           (Inl (if names n = ''AbortError''
                 then MpesaApiError
                        (''Request timed out after '' @ show_int (timeout_ms this) @ ''ms'')
                        None NoPayload None
                 else Error (names n) (msgs n)),
            w\<lparr>trace := trace w @
                 concat (map (\<lambda>k. (if 0 < k then [Sleep (min (1000 * 2 ^ (k - 1)) 10000)] else []) @
                                   [Fetch (api_request (api (urls this) @ path) b token)])
                   [0..<Suc n]),
               fetches := fetches w + Suc n\<rparr>)"
proof -
  let ?surfaced = "\<lambda>k. if names k = ''AbortError'' then timed_out this else Error (names k) (msgs k)"
  have retry: "try_block this (0 + int k) (settle this (api_net e (fetches w + k))) =
               Continue (?surfaced k)" if "k < n" for k
    using that assms by (simp add: try_block_local_retry)
  have last: "try_block this (0 + int n) (settle this (api_net e (fetches w + n))) =
              Throw (?surfaced n)"
    using assms by (simp add: try_block_local_exhausted)
  show ?thesis
    unfolding apiRequest_def
    using apiRequest_loop_throw [of 0 n this e w ?surfaced, OF _ retry last] assms(1)
    by (simp add: attempts_from_0 timed_out_def)
qed

theorem apiRequest_local_failure_policy_witness:
  "apiRequest (steady_env (Inr token_response) (Inl (Error ''TypeError'' ''fetch failed'')) 0)
       (test_client 1) ''/mpesa/b2c/v1/paymentrequest'' [] ''test_token'' world0 =
     (Inl (Error ''TypeError'' ''fetch failed''),
      \<lparr>trace =
         [Fetch (api_request (api (urls (test_client 1)) @ ''/mpesa/b2c/v1/paymentrequest'')
                   [] ''test_token''),
          Sleep 1000,
          Fetch (api_request (api (urls (test_client 1)) @ ''/mpesa/b2c/v1/paymentrequest'')
                   [] ''test_token'')],
       fetches = 2, clock_reads = 0\<rparr>)
   \<and> apiRequest (steady_env (Inr token_response) (Inl (Error ''AbortError'' ''aborted'')) 0)
       (test_client 0) ''/mpesa/b2c/v1/paymentrequest'' [] ''test_token'' world0 =
     (Inl (MpesaApiError ''Request timed out after 30000ms'' None NoPayload None),
      \<lparr>trace =
         [Fetch (api_request (api (urls (test_client 0)) @ ''/mpesa/b2c/v1/paymentrequest'')
                   [] ''test_token'')],
       fetches = 1, clock_reads = 0\<rparr>)"
proof -
  let ?down = "steady_env (Inr token_response) (Inl (Error ''TypeError'' ''fetch failed'')) 0"
  let ?slow = "steady_env (Inr token_response) (Inl (Error ''AbortError'' ''aborted'')) 0"
  have retries: "int 1 = maxRetries (test_client 1)" "int 0 = maxRetries (test_client 0)"
    by (simp_all add: test_client_def)
  have down: "\<forall>k\<le>1. api_net ?down (fetches world0 + k) = Inl (Error ''TypeError'' ''fetch failed'')"
    by (simp add: steady_env_def)
  have slow: "\<forall>k\<le>0. api_net ?slow (fetches world0 + k) = Inl (Error ''AbortError'' ''aborted'')"
    by (simp add: steady_env_def)
  have ms: "show_int (timeout_ms (test_client 0)) = ''30000''"
    by (simp add: test_client_def show_int_def show_nat.simps digit_char_def)
  have upts: "[0..<2] = [0, 1]"
    by (simp add: upt_rec)
  from apiRequest_local_failure_policy [of 1 "test_client 1" ?down world0
      "\<lambda>k. ''TypeError''" "\<lambda>k. ''fetch failed''", OF retries(1) down]
    apiRequest_local_failure_policy [of 0 "test_client 0" ?slow world0
      "\<lambda>k. ''AbortError''" "\<lambda>k. ''aborted''", OF retries(2) slow]
  show ?thesis
    by (simp add: ms upts world0_def)
qed

subsection \<open>Timestamps\<close>

lemma digit_val_char: "is_digit c \<Longrightarrow> digit_val c < 10 \<and> digit_char (digit_val c) = c"
  by (auto simp: is_digit_def digit_val_def digit_char_def)

lemma digits_value_snoc:
  "digits_value r v (ds @ [c]) = digits_value r v ds * r + v c"
  by (simp add: digits_value_def)

lemma show_nat_digit: "d < 10 \<Longrightarrow> show_nat d = [digit_char d]"
  by (simp add: show_nat.simps)

lemma show_nat_step: "0 < v \<Longrightarrow> d < 10 \<Longrightarrow> show_nat (v * 10 + d) = show_nat v @ [digit_char d]"
  by (subst show_nat.simps) simp

lemma show_nat_padded:
  "list_all is_digit ds \<Longrightarrow> ds \<noteq> [] \<Longrightarrow>
   length (show_nat (digits_value 10 digit_val ds)) \<le> length ds \<and>
   padStart (show_nat (digits_value 10 digit_val ds)) (length ds) CHR ''0'' = ds"
proof (induction ds rule: rev_induct)
  case Nil
  then show ?case by simp
next
  case (snoc c ds)
  from snoc.prems have c: "digit_val c < 10" "digit_char (digit_val c) = c"
    and ds: "list_all is_digit ds"
    using digit_val_char by auto
  show ?case
  proof (cases "ds = []")
    case True
    then show ?thesis
      using c by (simp add: digits_value_def show_nat_digit padStart_def)
  next
    case False
    with snoc.IH ds have IH: "length (show_nat (digits_value 10 digit_val ds)) \<le> length ds"
      "padStart (show_nat (digits_value 10 digit_val ds)) (length ds) CHR ''0'' = ds"
      by auto
    show ?thesis
    proof (cases "digits_value 10 digit_val ds = 0")
      case True
      with IH(2) have "replicate (length ds - 1) CHR ''0'' @ ''0'' = ds"
        by (simp add: padStart_def show_nat_digit digit_char_def)
      then have "ds = replicate (length ds) CHR ''0''"
        using False
        by (metis Suc_pred' length_greater_0_conv replicate_Suc replicate_append_same)
      then show ?thesis
        using c True
        by (simp add: digits_value_snoc show_nat_digit padStart_def)
    next
      case False
      then show ?thesis
        using c IH
        by (simp add: digits_value_snoc show_nat_step padStart_def Suc_diff_le)
    qed
  qed
qed

lemma show_nat_nonempty: "1 \<le> length (show_nat n)"
  by (subst show_nat.simps) simp

lemma show_nat_length_ge:
  assumes "1000 \<le> n"
  shows "4 \<le> length (show_nat n)"
proof -
  have big: "\<not> n < 10" "\<not> n div 10 < 10" "\<not> n div 10 div 10 < 10"
    using assms by auto
  have "show_nat n =
          show_nat (n div 10 div 10 div 10) @ [digit_char (n div 10 div 10 mod 10)] @
          [digit_char (n div 10 mod 10)] @ [digit_char (n mod 10)]"
    using big
    by (simp add: show_nat.simps [of n] show_nat.simps [of "n div 10"]
        show_nat.simps [of "n div 10 div 10"])
  then show ?thesis
    using show_nat_nonempty [of "n div 10 div 10 div 10"] by simp
qed

lemma show_nat_year:
  assumes "list_all is_digit ds" and "length ds = 4" and "1000 \<le> digits_value 10 digit_val ds"
  shows "show_nat (digits_value 10 digit_val ds) = ds"
proof -
  from assms(2) have "ds \<noteq> []" by auto
  from show_nat_padded [OF assms(1) this] show_nat_length_ge [OF assms(3)] assms(2)
  show ?thesis by (simp add: padStart_def)
qed

lemma parseInt_digits:
  assumes "list_all is_digit ds" and "ds \<noteq> []"
  shows "parseInt ds = Num (int (digits_value 10 digit_val ds))"
proof -
  obtain c cs where ds: "ds = c # cs" using assms(2) by (cases ds) auto
  with assms(1) have c: "is_digit c" and cs: "list_all is_digit cs" by auto
  have nospace: "\<not> is_space c" and nosign: "c \<noteq> CHR ''-''" "c \<noteq> CHR ''+''"
    using c by (auto simp: is_digit_def is_space_def)
  have nohex: "\<not> startsWith ds ''0x''" "\<not> startsWith ds ''0X''"
    using cs ds by (cases cs; auto simp: startsWith_def is_digit_def)+
  have tw: "takeWhile is_digit ds = ds"
    using assms(1) by (simp add: list_all_iff)
  have dw: "dropWhile is_space ds = ds"
    using nospace ds by simp
  have sw: "\<not> startsWith ds ''-''" "\<not> startsWith ds ''+''"
    using nosign ds by (simp_all add: startsWith_def)
  show ?thesis
    using assms(2) by (simp add: parseInt_def dw sw nohex tw Let_def)
qed


lemma normalize_day_in_range:
  "0 \<le> off \<Longrightarrow> off < days_in_month y m \<Longrightarrow> normalize_day y m off = (y, m, off + 1)"
  by (simp add: normalize_day.simps)

lemma carry_over_in_range:
  assumes "0 \<le> m" "m \<le> 11" "1 \<le> d" "d \<le> days_in_month y m"
    and "0 \<le> h" "h \<le> 23" "0 \<le> mi" "mi \<le> 59" "0 \<le> s" "s \<le> 59"
  shows "carry_over y m d h mi s = (y, m, d, h, mi, s)"
proof -
  let ?time = "h * 3600 + mi * 60 + s"
  have range: "0 \<le> ?time" "?time < 86400"
    using assms by auto
  then have day: "?time div 86400 = 0" "?time mod 86400 = ?time"
    by simp_all
  have hh: "?time div 3600 = h"
    using assms by (intro int_div_pos_eq [of _ 3600 _ "mi * 60 + s"]) auto
  have rest: "?time mod 3600 = mi * 60 + s"
    using assms by (intro int_mod_pos_eq [of _ 3600 h]) auto
  have mm: "(mi * 60 + s) div 60 = mi"
    using assms by (intro int_div_pos_eq [of _ 60 _ s]) auto
  have ss: "?time mod 60 = s"
  proof -
    have "?time = 60 * (h * 60 + mi) + s" by simp
    then show ?thesis
      using assms by (intro int_mod_pos_eq [of _ 60 "h * 60 + mi"]) auto
  qed
  have month: "m div 12 = 0" "m mod 12 = m"
    using assms by simp_all
  have norm: "normalize_day y m (d - 1) = (y, m, d)"
    using normalize_day_in_range [of "d - 1" y m] assms by simp
  show ?thesis
    by (simp add: carry_over_def day hh rest mm ss month norm Let_def)
qed

lemma new_Date_in_range:
  assumes "100 \<le> y" "0 \<le> m" "m \<le> 11" "1 \<le> d" "d \<le> days_in_month y m"
    and "0 \<le> h" "h \<le> 23" "0 \<le> mi" "mi \<le> 59" "0 \<le> s" "s \<le> 59"
    and "z (y, m, d, h, mi, s) = 0"
  shows "new_Date z (Num y) (Num m) (Num d) (Num h) (Num mi) (Num s) = Local y m d h mi s"
proof -
  have c: "carry_over y m d h mi s = (y, m, d, h, mi, s)"
    by (rule carry_over_in_range) (use assms in auto)
  show ?thesis
    using assms(1,12) by (simp add: c)
qed


lemma substring_digits:
  assumes "list_all is_digit s" and "b \<le> length s" and "a < b"
  shows "list_all is_digit (substring s a b) \<and> length (substring s a b) = b - a
       \<and> substring s a b \<noteq> []"
proof -
  have "set (substring s a b) \<subseteq> set s"
    unfolding substring_def by (meson set_take_subset set_drop_subset subset_trans)
  with assms(1) have "list_all is_digit (substring s a b)"
    by (auto simp: list_all_iff)
  moreover have "length (substring s a b) = b - a"
    using assms(2,3) by (simp add: substring_def)
  ultimately show ?thesis using assms(3) by auto
qed

lemma pad2:
  assumes "list_all is_digit s" and "b \<le> length s" and "b = a + 2"
  shows "padStart (show_nat (timestamp_field s a b)) 2 CHR ''0'' = substring s a b"
proof -
  from substring_digits [OF assms(1,2)] assms(3)
  have "list_all is_digit (substring s a b)" "length (substring s a b) = 2" "substring s a b \<noteq> []"
    by auto
  with show_nat_padded [of "substring s a b"] show ?thesis
    by (simp add: timestamp_field_def)
qed

text \<open>
  Claim C9 does not hold for every valid date. The year is written without padding, and
  the \<^verbatim>\<open>Date\<close> constructor reads a year from 0 to 99 as 1900 + year: the timestamp of
  1 January 999 comes back with 13 characters, and that of 1 January 50 as 1950. And the
  constructor reads the fields as local time: on a host whose zone skipped the local
  time, a later one comes back, 03:30 for 02:30 on 10 March 2024 in
  \<^verbatim>\<open>America/New_York\<close> and 00:45 for 00:15 on 1 July 1928 in \<^verbatim>\<open>Africa/Nairobi\<close>.
\<close>

theorem timestamp_roundtrip_fails:
  "generateTimestamp (parseSafaricomDate no_transitions (StringValue ''09990101000000''))
     = ''9990101000000''
   \<and> generateTimestamp (parseSafaricomDate no_transitions (StringValue ''00500101000000''))
     = ''19500101000000''
   \<and> generateTimestamp (parseSafaricomDate new_york_2024 (StringValue ''20240310023000''))
     = ''20240310033000''
   \<and> generateTimestamp (parseSafaricomDate nairobi_1928 (StringValue ''19280701001500''))
     = ''19280701004500''"
  by code_simp

text \<open>
  Claim C9, amended. For a string of 14 digits whose year is at least 1000, whose
  month (1 to 12), day (1 to the number of days of that month in that year), hour (at
  most 23), minute and second (at most 59) are those of a calendar date-time, and whose
  date-time exists as a local time in the host's zone (the zone did not skip it),
  formatting the parsed date gives the string back.
\<close>

theorem timestamp_roundtrip:
  assumes "length s = 14" and "list_all is_digit s"
    and "1000 \<le> timestamp_field s 0 4"
    and "1 \<le> timestamp_field s 4 6" and "timestamp_field s 4 6 \<le> 12"
    and "1 \<le> timestamp_field s 6 8"
    and "int (timestamp_field s 6 8) \<le> days_in_month (int (timestamp_field s 0 4)) (int (timestamp_field s 4 6) - 1)"
    and "timestamp_field s 8 10 \<le> 23" and "timestamp_field s 10 12 \<le> 59" and "timestamp_field s 12 14 \<le> 59"
    and "z (int (timestamp_field s 0 4), int (timestamp_field s 4 6) - 1,
            int (timestamp_field s 6 8), int (timestamp_field s 8 10),
            int (timestamp_field s 10 12), int (timestamp_field s 12 14)) = 0"
  shows "generateTimestamp (parseSafaricomDate z (StringValue s)) = s"
proof -
  have p: "parseInt (substring s a b) = Num (int (timestamp_field s a b))" if "b \<le> 14" "a < b" for a b
    using substring_digits [OF assms(2), of b a] that assms(1)
    by (simp add: parseInt_digits timestamp_field_def)
  have date: "parseSafaricomDate z (StringValue s) =
      Local (int (timestamp_field s 0 4)) (int (timestamp_field s 4 6) - 1) (int (timestamp_field s 6 8))
        (int (timestamp_field s 8 10)) (int (timestamp_field s 10 12)) (int (timestamp_field s 12 14))"
  proof -
    have "new_Date z (Num (int (timestamp_field s 0 4))) (Num (int (timestamp_field s 4 6) - 1))
            (Num (int (timestamp_field s 6 8))) (Num (int (timestamp_field s 8 10))) (Num (int (timestamp_field s 10 12)))
            (Num (int (timestamp_field s 12 14))) =
          Local (int (timestamp_field s 0 4)) (int (timestamp_field s 4 6) - 1) (int (timestamp_field s 6 8))
            (int (timestamp_field s 8 10)) (int (timestamp_field s 10 12)) (int (timestamp_field s 12 14))"
      by (rule new_Date_in_range) (use assms(3-11) in auto)
    then show ?thesis
      unfolding parseSafaricomDate_def
      by (simp add: p Let_def del: new_Date.simps)
  qed
  have year: "show_nat (timestamp_field s 0 4) = substring s 0 4"
    using substring_digits [OF assms(2), of 4 0] assms(1,3)
    by (simp add: timestamp_field_def show_nat_year)
  have parts: "substring s 0 4 @ substring s 4 6 @ substring s 6 8 @ substring s 8 10 @
               substring s 10 12 @ substring s 12 14 = s"
  proof -
    have step: "take n (drop a s) @ drop (a + n) s = drop a s" for a n
      by (metis append_take_drop_id drop_drop add.commute)
    have "substring s 12 14 = drop 12 s"
      using assms(1) by (simp add: substring_def)
    then show ?thesis
      using step [of 4 0] step [of 2 4] step [of 2 6] step [of 2 8] step [of 2 10]
      by (simp add: substring_def)
  qed
  show ?thesis
    unfolding date generateTimestamp_def
    using assms(1,2)
    by (simp add: show_int_def year pad2 parts Let_def)
qed

theorem timestamp_roundtrip_witness:
  "length ''20240310030000'' = 14 \<and> list_all is_digit ''20240310030000''
   \<and> 1000 \<le> timestamp_field ''20240310030000'' 0 4
   \<and> int (timestamp_field ''20240310030000'' 6 8)
       \<le> days_in_month (int (timestamp_field ''20240310030000'' 0 4))
            (int (timestamp_field ''20240310030000'' 4 6) - 1)
   \<and> new_york_2024 (2024, 2, 10, 3, 0, 0) = 0
   \<and> generateTimestamp (parseSafaricomDate new_york_2024 (StringValue ''20240310030000''))
       = ''20240310030000''"
proof -
  have fields:
    "timestamp_field ''20240310030000'' 0 4 = 2024" "timestamp_field ''20240310030000'' 4 6 = 3"
    "timestamp_field ''20240310030000'' 6 8 = 10" "timestamp_field ''20240310030000'' 8 10 = 3"
    "timestamp_field ''20240310030000'' 10 12 = 0" "timestamp_field ''20240310030000'' 12 14 = 0"
    by (simp_all add: timestamp_field_def substring_def digits_value_def digit_val_def)
  have digits: "length ''20240310030000'' = 14" "list_all is_digit ''20240310030000''"
    by (simp_all add: is_digit_def)
  have march: "days_in_month 2024 2 = 31"
    by (simp add: days_in_month_def leap_year_def)
  have exists: "new_york_2024 (2024, 2, 10, 3, 0, 0) = 0"
    by (simp add: new_york_2024_def)
  from timestamp_roundtrip [OF digits, of new_york_2024] fields march digits exists show ?thesis
    by simp
qed

subsection \<open>Callbacks\<close>

lemma switch_item_copied:
  "success (switch_item z r item) = success r \<and> resultCode (switch_item z r item) = resultCode r \<and>
   resultDesc (switch_item z r item) = resultDesc r \<and>
   merchantRequestId (switch_item z r item) = merchantRequestId r \<and>
   checkoutRequestId (switch_item z r item) = checkoutRequestId r"
  by (simp add: switch_item_def)

lemma foldl_switch_item_copied:
  "success (foldl (switch_item z) r items) = success r \<and>
   resultCode (foldl (switch_item z) r items) = resultCode r \<and>
   resultDesc (foldl (switch_item z) r items) = resultDesc r \<and>
   merchantRequestId (foldl (switch_item z) r items) = merchantRequestId r \<and>
   checkoutRequestId (foldl (switch_item z) r items) = checkoutRequestId r"
  by (induction items arbitrary: r) (simp_all add: switch_item_copied)

lemma foldl_switch_item_receipt:
  "(mpesaReceiptNumber (foldl (switch_item z) r items) \<noteq> None) =
   (mpesaReceiptNumber r \<noteq> None \<or> (\<exists>item\<in>set items. Name item = ''MpesaReceiptNumber''))"
  by (induction items arbitrary: r) (auto simp: switch_item_def)

lemma foldl_switch_item_date:
  "(transactionDate (foldl (switch_item z) r items) \<noteq> None) =
   (transactionDate r \<noteq> None \<or> (\<exists>item\<in>set items. Name item = ''TransactionDate''))"
  by (induction items arbitrary: r) (auto simp: switch_item_def)

lemma foldl_switch_item_phone:
  "(phoneNumber (foldl (switch_item z) r items) \<noteq> None) =
   (phoneNumber r \<noteq> None \<or> (\<exists>item\<in>set items. Name item = ''PhoneNumber''))"
  by (induction items arbitrary: r) (auto simp: switch_item_def)

lemma foldl_switch_item_amount:
  "(amount (foldl (switch_item z) r items) \<noteq> None) =
   (amount r \<noteq> None \<or> (\<exists>item\<in>set items. Name item = ''Amount''))"
  by (induction items arbitrary: r) (auto simp: switch_item_def)

text \<open>
  Claim C7. For every callback payload \<open>b\<close> with callback record \<open>cb\<close>, the result has
  \<open>success\<close> exactly when \<open>ResultCode\<close> is 0, and the result code, the description and
  both correlation identifiers are copied through. Each optional field is set (not
  \<open>None\<close>, the model of \<^verbatim>\<open>null\<close>) exactly when \<open>ResultCode\<close> is 0, the metadata is there and
  holds an item of the field's name; in every other case it is \<open>None\<close>. The failed
  callback of the test suite (\<open>ResultCode\<close> 1032, no metadata) gives the record with
  \<open>success = False\<close>, \<open>resultCode = 1032\<close> and all four optional fields \<open>None\<close>.
\<close>

theorem parseStkCallback_flat_record:
  "success (parseStkCallback z b) = (ResultCode (stkCallback (Body b)) = 0)
   \<and> resultCode (parseStkCallback z b) = ResultCode (stkCallback (Body b))
   \<and> resultDesc (parseStkCallback z b) = ResultDesc (stkCallback (Body b))
   \<and> merchantRequestId (parseStkCallback z b) = MerchantRequestID (stkCallback (Body b))
   \<and> checkoutRequestId (parseStkCallback z b) = CheckoutRequestID (stkCallback (Body b))
   \<and> (mpesaReceiptNumber (parseStkCallback z b) \<noteq> None) =
       (ResultCode (stkCallback (Body b)) = 0 \<and>
        (\<exists>items. CallbackMetadata (stkCallback (Body b)) = Some items \<and>
                 (\<exists>item\<in>set items. Name item = ''MpesaReceiptNumber'')))
   \<and> (transactionDate (parseStkCallback z b) \<noteq> None) =
       (ResultCode (stkCallback (Body b)) = 0 \<and>
        (\<exists>items. CallbackMetadata (stkCallback (Body b)) = Some items \<and>
                 (\<exists>item\<in>set items. Name item = ''TransactionDate'')))
   \<and> (phoneNumber (parseStkCallback z b) \<noteq> None) =
       (ResultCode (stkCallback (Body b)) = 0 \<and>
        (\<exists>items. CallbackMetadata (stkCallback (Body b)) = Some items \<and>
                 (\<exists>item\<in>set items. Name item = ''PhoneNumber'')))
   \<and> (amount (parseStkCallback z b) \<noteq> None) =
       (ResultCode (stkCallback (Body b)) = 0 \<and>
        (\<exists>items. CallbackMetadata (stkCallback (Body b)) = Some items \<and>
                 (\<exists>item\<in>set items. Name item = ''Amount'')))
   \<and> parseStkCallback z
        \<lparr>Body = \<lparr>stkCallback =
           \<lparr>MerchantRequestID = ''merchant_123'', CheckoutRequestID = ''checkout_123'',
            ResultCode = 1032, ResultDesc = ''Request cancelled by user.'',
            CallbackMetadata = None\<rparr>\<rparr>\<rparr> =
       \<lparr>success = False, resultCode = 1032, resultDesc = ''Request cancelled by user.'',
        merchantRequestId = ''merchant_123'', checkoutRequestId = ''checkout_123'',
        mpesaReceiptNumber = None, transactionDate = None, phoneNumber = None,
        amount = None\<rparr>"
proof -
  let ?cb = "stkCallback (Body b)"
  let ?init = "\<lparr>success = (ResultCode ?cb = 0), resultCode = ResultCode ?cb,
                resultDesc = ResultDesc ?cb, merchantRequestId = MerchantRequestID ?cb,
                checkoutRequestId = CheckoutRequestID ?cb, mpesaReceiptNumber = None,
                transactionDate = None, phoneNumber = None, amount = None\<rparr>"
  have example: "parseStkCallback z
        \<lparr>Body = \<lparr>stkCallback =
           \<lparr>MerchantRequestID = ''merchant_123'', CheckoutRequestID = ''checkout_123'',
            ResultCode = 1032, ResultDesc = ''Request cancelled by user.'',
            CallbackMetadata = None\<rparr>\<rparr>\<rparr> =
       \<lparr>success = False, resultCode = 1032, resultDesc = ''Request cancelled by user.'',
        merchantRequestId = ''merchant_123'', checkoutRequestId = ''checkout_123'',
        mpesaReceiptNumber = None, transactionDate = None, phoneNumber = None,
        amount = None\<rparr>"
    by (simp add: parseStkCallback_def)
  consider (failed) "ResultCode ?cb \<noteq> 0"
    | (bare) "ResultCode ?cb = 0" "CallbackMetadata ?cb = None"
    | (items) items where "ResultCode ?cb = 0" "CallbackMetadata ?cb = Some items"
    by (cases "CallbackMetadata ?cb") auto
  then have general:
    "success (parseStkCallback z b) = (ResultCode ?cb = 0)
     \<and> resultCode (parseStkCallback z b) = ResultCode ?cb
     \<and> resultDesc (parseStkCallback z b) = ResultDesc ?cb
     \<and> merchantRequestId (parseStkCallback z b) = MerchantRequestID ?cb
     \<and> checkoutRequestId (parseStkCallback z b) = CheckoutRequestID ?cb
     \<and> (mpesaReceiptNumber (parseStkCallback z b) \<noteq> None) =
         (ResultCode ?cb = 0 \<and>
          (\<exists>items. CallbackMetadata ?cb = Some items \<and>
                   (\<exists>item\<in>set items. Name item = ''MpesaReceiptNumber'')))
     \<and> (transactionDate (parseStkCallback z b) \<noteq> None) =
         (ResultCode ?cb = 0 \<and>
          (\<exists>items. CallbackMetadata ?cb = Some items \<and>
                   (\<exists>item\<in>set items. Name item = ''TransactionDate'')))
     \<and> (phoneNumber (parseStkCallback z b) \<noteq> None) =
         (ResultCode ?cb = 0 \<and>
          (\<exists>items. CallbackMetadata ?cb = Some items \<and>
                   (\<exists>item\<in>set items. Name item = ''PhoneNumber'')))
     \<and> (amount (parseStkCallback z b) \<noteq> None) =
         (ResultCode ?cb = 0 \<and>
          (\<exists>items. CallbackMetadata ?cb = Some items \<and>
                   (\<exists>item\<in>set items. Name item = ''Amount'')))"
  proof cases
    case failed
    then show ?thesis
      by (simp add: parseStkCallback_def Let_def)
  next
    case bare
    then show ?thesis
      by (simp add: parseStkCallback_def Let_def)
  next
    case items
    then have r: "parseStkCallback z b = foldl (switch_item z) ?init items"
      by (simp add: parseStkCallback_def Let_def)
    show ?thesis
      unfolding r foldl_switch_item_receipt foldl_switch_item_date foldl_switch_item_phone
        foldl_switch_item_amount
      using items by (simp add: foldl_switch_item_copied)
  qed
  from general example show ?thesis
    by (intro conjI) (elim conjE, assumption)+
qed

lemma parseStkCallback_successful_callback:
  assumes "z (2026, 1, 25, 12, 0, 0) = 0"
  shows "parseStkCallback z
     \<lparr>Body = \<lparr>stkCallback =
        \<lparr>MerchantRequestID = ''merchant_123'', CheckoutRequestID = ''checkout_123'',
         ResultCode = 0, ResultDesc = ''The service request is processed successfully.'',
         CallbackMetadata = Some
           [\<lparr>Name = ''Amount'', Value = NumberValue 100\<rparr>,
            \<lparr>Name = ''MpesaReceiptNumber'', Value = StringValue ''ABC123XYZ''\<rparr>,
            \<lparr>Name = ''TransactionDate'', Value = NumberValue 20260225120000\<rparr>,
            \<lparr>Name = ''PhoneNumber'', Value = NumberValue 254712345678\<rparr>]\<rparr>\<rparr>\<rparr> =
   \<lparr>success = True, resultCode = 0,
    resultDesc = ''The service request is processed successfully.'',
    merchantRequestId = ''merchant_123'', checkoutRequestId = ''checkout_123'',
    mpesaReceiptNumber = Some ''ABC123XYZ'',
    transactionDate = Some (Local 2026 1 25 12 0 0),
    phoneNumber = Some ''254712345678'', amount = Some (Num 100)\<rparr>"
proof -
  have str: "show_int 20260225120000 = ''20260225120000''" "show_int 254712345678 = ''254712345678''"
    by (simp_all add: show_int_def show_nat.simps digit_char_def)
  have built: "new_Date z (Num 2026) (Num 1) (Num 25) (Num 12) (Num 0) (Num 0) =
      Local 2026 1 25 12 0 0"
    by (rule new_Date_in_range) (simp_all add: assms days_in_month_def)
  have date: "parseSafaricomDate z (NumberValue 20260225120000) = Local 2026 1 25 12 0 0"
    using built
    by (simp add: parseSafaricomDate_def str substring_def parseInt_def is_space_def
        startsWith_def is_digit_def digits_value_def digit_val_def del: new_Date.simps)
  show ?thesis
    by (simp add: parseStkCallback_def switch_item_def date str)
qed

lemma createStkCallbackHandler_acknowledges:
  assumes "case onError options of None \<Rightarrow> True | Some handler \<Rightarrow> \<forall>e. handler e = None"
  shows "createStkCallbackHandler z options req_body res =
           (None, res\<lparr>sent := sent res @ [Accepted]\<rparr>)"
  using assms
  by (auto simp: createStkCallbackHandler_def res_json_def split: option.splits)

text \<open>
  Claim C8. The handler sends the fixed body, and leaves the status code alone,
  whenever the \<^verbatim>\<open>onError\<close> callback is absent or completes (lemma
  \<open>createStkCallbackHandler_acknowledges\<close>). But the \<^verbatim>\<open>catch\<close> block awaits \<^verbatim>\<open>onError\<close>
  before it answers: when parsing the payload or \<^verbatim>\<open>onResult\<close> throws and the \<^verbatim>\<open>onError\<close> callback
  throws in turn, the handler's promise rejects and no body is sent at all, against
  the comment there (\<^verbatim>\<open>Still return success to prevent Safaricom retries\<close>).
\<close>

theorem createStkCallbackHandler_silent_when_onError_throws:
  "createStkCallbackHandler z
     \<lparr>onResult = (\<lambda>result. None),
      onError = Some (\<lambda>err. Some (ThrownError (Error ''Error'' ''log sink unavailable'')))\<rparr>
     (Malformed ''Cannot read properties of undefined (reading stkCallback)'')
     \<lparr>statusCode = 200, sent = []\<rparr> =
   (Some (ThrownError (Error ''Error'' ''log sink unavailable'')),
    \<lparr>statusCode = 200, sent = []\<rparr>)
   \<and> createStkCallbackHandler z
     \<lparr>onResult = (\<lambda>result. Some (ThrownValue ''database down'')),
      onError = Some (\<lambda>err. Some (ThrownError err))\<rparr>
     (WellFormed payload)
     \<lparr>statusCode = 200, sent = []\<rparr> =
   (Some (ThrownError (Error ''Error'' ''database down'')),
    \<lparr>statusCode = 200, sent = []\<rparr>)"
  by (simp add: createStkCallbackHandler_def stk_try_def)

subsection \<open>Security credentials\<close>

lemma join_lines_Cons:
  "join_lines (l # rest) = l @ concat (map (\<lambda>x. CHR 0x0A # x) rest)"
proof -
  have "foldl (\<lambda>acc x. acc @ [CHR 0x0A] @ x) a rest = a @ concat (map (\<lambda>x. CHR 0x0A # x) rest)" for a
    by (induction rest arbitrary: a) simp_all
  then show ?thesis by (simp add: join_lines_def)
qed

lemma split_lines_last: "CHR 0x0A \<notin> set l \<Longrightarrow> split_lines l = [l]"
  by (induction l) (auto simp: split_lines_def)

lemma split_lines_line:
  "CHR 0x0A \<notin> set l \<Longrightarrow> split_lines (l @ CHR 0x0A # rest) = l # split_lines rest"
  by (induction l) (auto simp: split_lines_def)

lemma split_lines_join_lines:
  "\<forall>l\<in>set (l0 # ls). CHR 0x0A \<notin> set l \<Longrightarrow> split_lines (join_lines (l0 # ls)) = l0 # ls"
proof (induction ls arbitrary: l0)
  case Nil
  then show ?case by (simp add: join_lines_Cons split_lines_last)
next
  case (Cons l1 ls)
  have "join_lines (l0 # l1 # ls) = l0 @ CHR 0x0A # join_lines (l1 # ls)"
    by (simp add: join_lines_Cons)
  with Cons show ?case by (simp add: split_lines_line)
qed

lemma whole_groups_length: "whole_groups xs = (4 dvd length xs)"
  by (induction xs rule: whole_groups.induct) (simp_all add: dvd_eq_mod_eq_0)

lemma no_space_no_LF: "list_all (\<lambda>c. \<not> is_space c) l \<Longrightarrow> CHR 0x0A \<notin> set l"
  by (auto simp: list_all_iff is_space_def)

lemma filter_no_space: "list_all (\<lambda>l. list_all (\<lambda>c. \<not> is_space c) l) ls \<Longrightarrow>
  filter (\<lambda>c. \<not> is_space c) (concat ls) = concat ls"
  by (induction ls) (simp_all add: list_all_iff)

lemma pem_body_join_lines:
  assumes "list_all (list_all (\<lambda>c. \<not> is_space c)) (butlast rest)"
    and "first = ''-----BEGIN CERTIFICATE-----''" and "rest \<noteq> []"
    and "last rest = ''-----END CERTIFICATE-----''"
  shows "pem_body (join_lines (first # rest)) = Some (concat (butlast rest))"
proof -
  have ends: "CHR 0x0A \<notin> set first" "CHR 0x0A \<notin> set (last rest)"
    using assms(2,4) by simp_all
  have middle: "CHR 0x0A \<notin> set l" if "l \<in> set (butlast rest)" for l
    using assms(1) that no_space_no_LF by (auto simp: list_all_iff)
  have "CHR 0x0A \<notin> set l" if "l \<in> set rest" for l
  proof -
    have "rest = butlast rest @ [last rest]"
      using assms(3) by simp
    then have "l \<in> set (butlast rest) \<or> l = last rest"
      using that by (metis Un_iff empty_iff empty_set insert_iff list.simps(15) set_append)
    then show ?thesis
      using ends(2) middle by auto
  qed
  then have "\<forall>l\<in>set (first # rest). CHR 0x0A \<notin> set l"
    using ends(1) by simp
  then have s: "split_lines (join_lines (first # rest)) = first # rest"
    by (rule split_lines_join_lines)
  have f: "filter (\<lambda>c. \<not> is_space c) (concat (butlast rest)) = concat (butlast rest)"
    using assms(1) by (rule filter_no_space)
  show ?thesis
    unfolding pem_body_def s using assms(2,3,4) f by simp
qed

text \<open>
  The base64 characters of the built-in certificate do not come in whole groups of
  four (two of its lines have 63 characters where the others have 64, which leaves two
  characters over): it cannot be decoded.
\<close>

lemma SANDBOX_CERTIFICATE_lines:
  "list_all (list_all (\<lambda>c. \<not> is_space c))
     [''MIIGkzCCBXugAwIBAgIKXfBp5gAAADU/ODANBgkqhkiG9w0BAQsFADBbMRMwEQYK'',
      ''CZImiZPyLGQBGRYDbmV0MRkwFwYKCZImiZPyLGQBGRYJc2FmYXJpY29tMSkwJwYD'',
      ''VQQDEyBTYWZhcmljb20gSW50ZXJuYWwgSXNzdWluZyBDQSAwMjAeFw0xNzA0MjUx'',
      ''NjA3MjRaFw0xOTA0MjUxNjA3MjRaMIGNMQswCQYDVQQGEwJLRTEQMA4GA1UECBMH'',
      ''TmFpcm9iaTEQMA4GA1UEBxMHTmFpcm9iaTEaMBgGA1UEChMRU2FmYXJpY29tIExp'',
      ''bWl0ZWQxEzARBgNVBAsTClRlY2hub2xvZ3kxKTAnBgNVBAMTIGFwaWdlZS5hcGlj'',
      ''YWxsZXIuc2FmYXJpY29tLmNvLmtlMIIBIjANBgkqhkiG9w0BAQEFAAOCAQ8AMIIB'',
      ''CgKCAQEAoknIb5Tm1hxOVdFsOejAs6veAai32K7ZkJOCkS1Ka5KGgIF21bv1PMMK'',
      ''Rj3J6DSXVITMjPQSPVVL1YkFHMOCJIqI4oBSmTNaGzieiwkbYRa1ijZOrRaGcy4A'',
      ''gJ7VKfIHl4T2pGU2V00JZAIVOOgLNnJOIVzEh1SZGJLlCmlNakJE2bbZDrv1BS5O'',
      ''c4/VhDyDaSqiHxBSmTPKkjaCC8i9r8VfVD5n3C6BbEULNuBDMHEN5xNP/jQ1bv0I'',
      ''q2fgR9FoFvh0sJFqhiPIU5jmBiP1Dq0eXbLvBvpbvYVZ3uORDW0lhDQSeFPnEXM'',
      ''bgm/nz1hJPEb+wGTV/KxHqFY6xdfgQIDAQABo4IDJDCCAyAwHQYDVR0OBBYEFL9+'',
      ''EGBcM/Kt+3GUjGsmqXmdb2goMB8GA1UdIwQYMBaAFCy0EYDyMnJv94tFyAfhmXAz'',
      ''SxAdMIIBOwYDVR0fBIIBMjCCAS4wggEqoIIBJqCCASKGgdZsZGFwOi8vL0NOPVNh'',
      ''ZmFyaWNvbSUyMEludGVybmFsJTIwSXNzdWluZyUyMENBJTIwMDIsQ049U1ZSTFNB'',
      ''RkNBMDIuQ049Q0RQLENOPVB1YmxpYyUyMEtleSUyMFNlcnZpY2VzLENOPVNlcnZp'',
      ''Y2VzLENOPUNvbmZpZ3VyYXRpb24sREM9c2FmYXJpY29tLERDPW5ldD9jZXJ0aWZp'',
      ''Y2F0ZVJldm9jYXRpb25MaXN0P2Jhc2U/b2JqZWN0Q2xhc3M9Y1JMRGlzdHJpYnV0'',
      ''aW9uUG9pbnSGR2h0dHA6Ly9jcmwuc2FmYXJpY29tLmNvLmtlL1NhZmFyaWNvbSUy'',
      ''MEludGVybmFsJTIwSXNzdWluZyUyMENBJTIwMDIuY3JsMIIBLgYIKwYBBQUHAQEE'',
      ''ggEgMIIBHDCBzAYIKwYBBQUHMAKGgb9sZGFwOi8vL0NOPVNhZmFyaWNvbSUyMElu'',
      ''dGVybmFsJTIwSXNzdWluZyUyMENBJTIwMDIsQ049QUlBLENOPVB1YmxpYyUyMEtl'',
      ''eSUyMFNlcnZpY2VzLENOPVNlcnZpY2VzLENOPUNvbmZpZ3VyYXRpb24sREM9c2Fm'',
      ''YXJpY29tLERDPW5ldD9jQUNlcnRpZmljYXRlP2Jhc2U/b2JqZWN0Q2xhc3M9Y2Vy'',
      ''dGlmaWNhdGlvbkF1dGhvcml0eTBLBggrBgEFBQcwAoY/aHR0cDovL2NybC5zYWZh'',
      ''cmljb20uY28ua2UvU2FmYXJpY29tJTIwSW50ZXJuYWwlMjBJc3N1aW5nJTIwQ0Eu'',
      ''Y3J0MAsGA1UdDwQEAwIFoDA9BgkrBgEEAYI3FQcEMDAuBiYrBgEEAYI3FQiHz4Rh'',
      ''gZKNSIeanQqBiemFG4HYnQd2gYLiEQIBZAIBDTAdBgNVHSUEFjAUBggrBgEFBQcD'',
      ''AQYIKwYBBQUHAwIwJwYJKwYBBAGCNxUKBBowGDAKBggrBgEFBQcDATAKBggrBgEF'',
      ''BQcDAjANBgkqhkiG9w0BAQsFAAOCAQEAjjBpMhrikCwsGvXEC8ApFW9HJjFBIk/p'',
      ''aMaE7PSG1sHaZPMriDTz8GiH0uoSp6j0/NikvOfkQhQHPPUVH8k2d7X5Rymqixau'',
      ''5v7qEN1UBRrJvJZxUmJaGhpv8N3SbczH/j4+iVY8Fk/UJYIFt00g2e10h5uKZXSd'',
      ''Qfm/JAB7WPjMzIr6LxUqZjNTsIVvJmN3TlEB0yPz1EGiZCGlrL5WSFS/XvK+/vB'',
      ''TY28TGfN+iA8z5NW8MH2JB8JUL2S+JvJT8J2fPKxL9U6/1DOz7GM7NUxevHQkSnx'',
      ''F2Ci/e5dMIZXrlr0iLkaSj67LMF8bL7F8A9+2dV9SNKZ12C32BI5wQ=='']"
  by (simp add: is_space_def)

lemma SANDBOX_CERTIFICATE_undecodable: "undecodable SANDBOX_CERTIFICATE"
  unfolding undecodable_def SANDBOX_CERTIFICATE_def
  using SANDBOX_CERTIFICATE_lines
  by (subst pem_body_join_lines) simp_all

lemma production_cer_decodable: "\<not> undecodable production_cer"
  by code_simp

lemma generateSecurityCredential_builtin:
  "\<not> truthy certPath \<Longrightarrow>
   generateSecurityCredential rt password certPath = Inl (decode_error rt SANDBOX_CERTIFICATE)"
  by (auto simp: generateSecurityCredential_def truthy_def publicEncrypt_def
      SANDBOX_CERTIFICATE_undecodable split: option.splits)

lemma generateSecurityCredential_file:
  "certPath = Some path \<Longrightarrow> path \<noteq> [] \<Longrightarrow> readFileSync rt path = Inr certificate \<Longrightarrow>
   publicEncrypt rt certificate password = Inr encrypted \<Longrightarrow>
   generateSecurityCredential rt password certPath = Inr (base64 encrypted)"
  by (simp add: generateSecurityCredential_def)

lemma operation_fields_credential:
  "map_of (operation_fields this req cred phone operation) ''SecurityCredential'' =
     Some (JString cred)"
  by (cases operation) simp_all

lemma operation_body_credential:
  assumes "operation_body rt this req operation = Inr b"
  shows "\<exists>cred. getSecurityCredential rt this (requestCredential req) = Inr cred \<and>
               map_of b ''SecurityCredential'' = Some (JString cred)"
  using assms
  by (auto simp: operation_body_def operation_fields_credential split: sum.splits)

lemma initiator_operation_sends_credential:
  assumes "getAccessToken e this w = (Inr token, this1, w1)"
    and "operation_body rt this1 req operation = Inr b"
  shows "fst (initiator_operation e rt this req operation w) =
           fst (apiRequest e this1 (operation_path operation) b token w1)
       \<and> (\<exists>cred. getSecurityCredential rt this1 (requestCredential req) = Inr cred \<and>
                  map_of b ''SecurityCredential'' = Some (JString cred))"
  using assms operation_body_credential [OF assms(2)]
  by (simp add: initiator_operation_def split: prod.splits)

text \<open>
  The order of precedence in \<open>getSecurityCredential\<close>. It returns the request-level
  credential when one is supplied (a non-empty string); otherwise, when the
  configuration has a non-empty \<open>initiatorPassword\<close>, whatever
  \<open>generateSecurityCredential\<close> gives for that password and the configured certificate
  path: the base64 text of the RSA ciphertext under the certificate read from the path
  when that can be read and used, and the error of the failed decoding when no path is
  configured; otherwise the plain \<open>businessShortCode\<close>. Each of the six initiator
  operations (B2C, B2B, balance, status, reversal, tax remittance) that gets as far as
  building its body puts exactly the returned value into the field
  \<^verbatim>\<open>SecurityCredential\<close>.
\<close>

lemma getSecurityCredential_precedence:
  "(requestCredential req = Some c \<and> c \<noteq> [] \<longrightarrow>
      getSecurityCredential rt this (requestCredential req) = Inr c)
   \<and> (\<not> truthy (requestCredential req) \<and> initiatorPassword (config this) = Some p \<and> p \<noteq> [] \<longrightarrow>
        getSecurityCredential rt this (requestCredential req) =
          generateSecurityCredential rt p (certificatePath (config this))
        \<and> (\<not> truthy (certificatePath (config this)) \<longrightarrow>
              getSecurityCredential rt this (requestCredential req) =
                Inl (decode_error rt SANDBOX_CERTIFICATE))
        \<and> (\<forall>path certificate encrypted.
              certificatePath (config this) = Some path \<and> path \<noteq> [] \<and>
              readFileSync rt path = Inr certificate \<and>
              publicEncrypt rt certificate p = Inr encrypted \<longrightarrow>
                getSecurityCredential rt this (requestCredential req) = Inr (base64 encrypted)))
   \<and> (\<not> truthy (requestCredential req) \<and> \<not> truthy (initiatorPassword (config this)) \<longrightarrow>
        getSecurityCredential rt this (requestCredential req) =
          Inr (businessShortCode (config this)))
   \<and> (\<forall>b. operation_body rt this req operation = Inr b \<longrightarrow>
        (\<exists>cred. getSecurityCredential rt this (requestCredential req) = Inr cred \<and>
                map_of b ''SecurityCredential'' = Some (JString cred)))"
proof (intro conjI impI allI)
  assume "requestCredential req = Some c \<and> c \<noteq> []"
  then show "getSecurityCredential rt this (requestCredential req) = Inr c"
    by (simp add: getSecurityCredential_def truthy_def)
next
  assume a: "\<not> truthy (requestCredential req) \<and> initiatorPassword (config this) = Some p \<and> p \<noteq> []"
  then show g: "getSecurityCredential rt this (requestCredential req) =
      generateSecurityCredential rt p (certificatePath (config this))"
    by (simp add: getSecurityCredential_def truthy_def)
  show "getSecurityCredential rt this (requestCredential req) =
      Inl (decode_error rt SANDBOX_CERTIFICATE)"
    if "\<not> truthy (certificatePath (config this))"
    using that generateSecurityCredential_builtin [of "certificatePath (config this)" rt p]
    by (simp add: g)
  show "getSecurityCredential rt this (requestCredential req) = Inr (base64 encrypted)"
    if "certificatePath (config this) = Some path \<and> path \<noteq> [] \<and>
        readFileSync rt path = Inr certificate \<and> publicEncrypt rt certificate p = Inr encrypted"
    for path certificate encrypted
    using that generateSecurityCredential_file [of "certificatePath (config this)" path rt
        certificate p encrypted]
    by (simp add: g)
next
  assume "\<not> truthy (requestCredential req) \<and> \<not> truthy (initiatorPassword (config this))"
  then show "getSecurityCredential rt this (requestCredential req) =
      Inr (businessShortCode (config this))"
    by (simp add: getSecurityCredential_def)
next
  fix b
  assume "operation_body rt this req operation = Inr b"
  then show "\<exists>cred. getSecurityCredential rt this (requestCredential req) = Inr cred \<and>
      map_of b ''SecurityCredential'' = Some (JString cred)"
    by (rule operation_body_credential)
qed

lemma getSecurityCredential_precedence_witness:
  "getSecurityCredential sealed (test_client 0)
       (requestCredential (plain_request\<lparr>requestCredential := Some ''c2VjcmV0''\<rparr>)) =
     Inr ''c2VjcmV0''
   \<and> getSecurityCredential sealed
        ((test_client 0)\<lparr>config := VALID_CONFIG
           \<lparr>initiatorPassword := Some ''Safaricom999!'',
            certificatePath := Some ''./certs/production.cer''\<rparr>\<rparr>)
        (requestCredential plain_request) =
      Inr (base64 (''sealed:'' @ ''Safaricom999!''))
   \<and> getSecurityCredential sealed (test_client 0) (requestCredential plain_request) =
      Inr ''174379''
   \<and> map_of (operation_fields (test_client 0) plain_request ''174379'' [] AccountBalance)
        ''SecurityCredential'' = Some (JString ''174379'')
   \<and> operation_body sealed (test_client 0) plain_request AccountBalance =
      Inr (operation_fields (test_client 0) plain_request ''174379'' [] AccountBalance)"
proof -
  let ?supplied = "plain_request\<lparr>requestCredential := Some ''c2VjcmV0''\<rparr>"
  let ?with_file =
    "(test_client 0)\<lparr>config := VALID_CONFIG
       \<lparr>initiatorPassword := Some ''Safaricom999!'',
        certificatePath := Some ''./certs/production.cer''\<rparr>\<rparr>"
  have supplied: "requestCredential ?supplied = Some ''c2VjcmV0'' \<and> ''c2VjcmV0'' \<noteq> []"
    by simp
  have none: "\<not> truthy (requestCredential plain_request)"
    by (simp add: plain_request_def truthy_def)
  have from_file: "initiatorPassword (config ?with_file) = Some ''Safaricom999!''"
    "certificatePath (config ?with_file) = Some ''./certs/production.cer''"
    "readFileSync sealed ''./certs/production.cer'' = Inr production_cer"
    "publicEncrypt sealed production_cer ''Safaricom999!'' = Inr (''sealed:'' @ ''Safaricom999!'')"
    by (simp_all add: VALID_CONFIG_def sealed_def publicEncrypt_def production_cer_decodable)
  have no_password: "\<not> truthy (initiatorPassword (config (test_client 0)))"
    by (simp add: test_client_def VALID_CONFIG_def truthy_def)
  have code: "businessShortCode (config (test_client 0)) = ''174379''"
    by (simp add: test_client_def VALID_CONFIG_def)
  note first = getSecurityCredential_precedence [of ?supplied "''c2VjcmV0''" sealed
      "test_client 0" "''x''" AccountBalance, THEN conjunct1, rule_format, OF supplied]
  note second = getSecurityCredential_precedence [of plain_request "''x''" sealed
      ?with_file "''Safaricom999!''" AccountBalance, THEN conjunct2, THEN conjunct1,
      rule_format, THEN conjunct2, THEN conjunct2, rule_format]
  note third = getSecurityCredential_precedence [of plain_request "''x''" sealed
      "test_client 0" "''x''" AccountBalance, THEN conjunct2, THEN conjunct2, THEN conjunct1,
      rule_format]
  have a: "getSecurityCredential sealed (test_client 0) (requestCredential ?supplied) =
      Inr ''c2VjcmV0''"
    by (rule first)
  have b: "getSecurityCredential sealed ?with_file (requestCredential plain_request) =
      Inr (base64 (''sealed:'' @ ''Safaricom999!''))"
    by (rule second) (use none from_file in auto)
  have c: "getSecurityCredential sealed (test_client 0) (requestCredential plain_request) =
      Inr ''174379''"
    using third none no_password code by simp
  have d: "operation_body sealed (test_client 0) plain_request AccountBalance =
      Inr (operation_fields (test_client 0) plain_request ''174379'' [] AccountBalance)"
    by (simp add: operation_body_def c)
  from a b c d show ?thesis
    by (simp add: operation_fields_credential)
qed

text \<open>
  Claim C10 holds for the request-level credential and for the fallback to the
  \<open>businessShortCode\<close> (\<open>getSecurityCredential_precedence\<close>), but the code breaks its
  middle part in the default configuration. With \<open>initiatorPassword\<close> set, no
  \<open>certificatePath\<close> and no request-level credential, \<open>getSecurityCredential\<close> does not
  return an encrypted credential: on every runtime it throws, because the built-in
  certificate, which \<^verbatim>\<open>utils.ts\<close> says is used by default in the sandbox, is not
  decodable PEM text. An operation such as the balance query then throws the same error
  before any request body is built.
\<close>

theorem getSecurityCredential_builtin_certificate_throws:
  "getSecurityCredential rt
       ((test_client 0)\<lparr>config := VALID_CONFIG\<lparr>initiatorPassword := Some ''Safaricom999!''\<rparr>\<rparr>)
       (requestCredential plain_request) =
     Inl (decode_error rt SANDBOX_CERTIFICATE)
   \<and> operation_body rt
       ((test_client 0)\<lparr>config := VALID_CONFIG\<lparr>initiatorPassword := Some ''Safaricom999!''\<rparr>\<rparr>)
       plain_request AccountBalance =
     Inl (decode_error rt SANDBOX_CERTIFICATE)"
proof -
  let ?client =
    "(test_client 0)\<lparr>config := VALID_CONFIG\<lparr>initiatorPassword := Some ''Safaricom999!''\<rparr>\<rparr>"
  have "generateSecurityCredential rt ''Safaricom999!'' None =
      Inl (decode_error rt SANDBOX_CERTIFICATE)"
    by (rule generateSecurityCredential_builtin) (simp add: truthy_def)
  then have g: "getSecurityCredential rt ?client (requestCredential plain_request) =
      Inl (decode_error rt SANDBOX_CERTIFICATE)"
    by (simp add: getSecurityCredential_def plain_request_def truthy_def VALID_CONFIG_def)
  then show ?thesis
    by (simp add: operation_body_def)
qed

end
